theory Spec2Isabelle
  imports Main "HOL-Library.AList"
begin

section \<open>The Ecole Directe data update coordinator\<close>

text \<open>
  A shallow embedding of \<^verbatim>\<open>custom_components/ecole_directe/coordinator.py\<close>:
  the method \<^verbatim>\<open>_async_update_data\<close> of \<^verbatim>\<open>EDDataUpdateCoordinator\<close>, its helpers
  \<^verbatim>\<open>compare_data\<close> and \<^verbatim>\<open>trigger_event\<close>, and the collaborators they call,
  which enter as parameters.
\<close>

subsection \<open>Python values\<close>

text \<open>
  Exceptions (subclasses of \<^verbatim>\<open>Exception\<close>) are values. \<open>KeyError\<close> is raised by a
  subscript on a dict that lacks the key, \<open>TypeError\<close> by a subscript, a membership test or
  an iteration on an object that does not support it, and \<open>Raised\<close> stands for whatever a
  collaborator (session acquisition, a fetch, the formatting function) raises.
\<close>

datatype error = KeyError string | TypeError | Raised string

text \<open>A dict with string keys, in insertion order; \<open>map_of\<close> reads it.\<close>

type_synonym 'v pydict = "(string \<times> 'v) list"

text \<open>\<^verbatim>\<open>d[key]\<close>\<close>

definition subscript :: "'v pydict \<Rightarrow> string \<Rightarrow> error + 'v" where
  "subscript d key = (case map_of d key of None \<Rightarrow> Inl (KeyError key) | Some v \<Rightarrow> Inr v)"

text \<open>\<^verbatim>\<open>a == b\<close> on dicts: as many items, and every item of \<open>a\<close> is an item of \<open>b\<close>.\<close>

definition dict_eq :: "'v pydict \<Rightarrow> 'v pydict \<Rightarrow> bool" where
  "dict_eq a b = (length a = length b \<and> list_all (\<lambda>(k, v). map_of b k = Some v) a)"

text \<open>\<^verbatim>\<open>str(n)\<close> on an int: the decimal digits, with a minus sign below zero.\<close>

definition digit_char :: "nat \<Rightarrow> char" where
  "digit_char d =
     (if d = 0 then CHR ''0'' else if d = 1 then CHR ''1'' else if d = 2 then CHR ''2''
      else if d = 3 then CHR ''3'' else if d = 4 then CHR ''4'' else if d = 5 then CHR ''5''
      else if d = 6 then CHR ''6'' else if d = 7 then CHR ''7'' else if d = 8 then CHR ''8''
      else CHR ''9'')"

fun str_nat :: "nat \<Rightarrow> string" where
  "str_nat n = (if n < 10 then [digit_char n] else str_nat (n div 10) @ [digit_char (n mod 10)])"

definition str :: "int \<Rightarrow> string" where
  "str i = (if i < 0 then CHR ''-'' # str_nat (nat (- i)) else str_nat (nat i))"

subsection \<open>The academic-year label\<close>

text \<open>
  Lines 71 to 75 of \<^verbatim>\<open>_async_update_data\<close>; \<open>current_year\<close> is
  \<^verbatim>\<open>datetime.datetime.now().year\<close>. Python's \<^verbatim>\<open>%\<close> with a positive divisor is
  \<open>mod\<close> on \<open>int\<close>.
\<close>

definition year_data :: "int \<Rightarrow> string" where
  "year_data current_year =
     (if current_year mod 2 = 0
      then str (current_year - 1) @ ''-'' @ str current_year
      else str current_year @ ''-'' @ str (current_year + 1))"

subsection \<open>Collaborators\<close>

text \<open>
  Modelled from the spec: the classes \<^verbatim>\<open>EDEleve\<close> and \<^verbatim>\<open>EDSession\<close> of
  \<^verbatim>\<open>ecole_directe_helper.py\<close>, which is not among the sources. A session holds a token
  and the monitored students; a student has an id, a display name, that name in lower case
  and the names of the modules enabled for it. The fields \<open>fullname\<close> and
  \<open>fullname_lower\<close> are what \<^verbatim>\<open>get_fullname()\<close> and
  \<^verbatim>\<open>get_fullname_lower()\<close> return.
\<close>

record EDEleve =
  eleve_id :: string
  fullname :: string
  fullname_lower :: string
  modules :: "string list"

record EDSession =
  token :: string
  eleves :: "EDEleve list"

text \<open>
  What \<^verbatim>\<open>self.data\<close> holds under a key: the session under \<^verbatim>\<open>"session"\<close>, a
  sequence of records (of the opaque type \<open>'r\<close>) under a category key. Iterating a
  sequence yields its records; a session object is taken not to be iterable.
\<close>

datatype 'r entry = Session_entry EDSession | Items "'r list"

type_synonym 'r snapshot = "string \<rightharpoonup> 'r entry"

definition iter :: "'r entry \<Rightarrow> error + 'r list" where
  "iter e = (case e of Items xs \<Rightarrow> Inr xs | Session_entry _ \<Rightarrow> Inl TypeError)"

text \<open>The payload \<^verbatim>\<open>{"child_name": ..., "type": ..., "data": ...}\<close> of an event.\<close>

datatype 'v payload = Payload (child_name: string) (payload_type: string) (payload_data: "'v pydict")

text \<open>
  The effects of the coordinator on its surroundings, in the order they happen: the calls
  of the fetch operations, the invocations of \<^verbatim>\<open>compare_data\<close>, the events fired on
  the bus and the log records.
\<close>

datatype log_arg = Self_arg | Previous_data_arg | Str_arg string | Ex_arg error

datatype 'v action =
    Call_get_homeworks EDEleve
  | Call_get_grades EDEleve string
  | Call_get_lessons EDEleve string string
  | Call_compare_data string
  | Fire string "'v payload"
  | Log_error string
  | Log_warning string "log_arg list"

text \<open>
  The coordinator: \<^verbatim>\<open>self.data\<close> (\<open>None\<close> before the first refresh) and the effects
  performed so far.
\<close>

record ('r, 'v) coordinator =
  data :: "'r snapshot option"
  trace :: "'v action list"

text \<open>
  What a tick reads from outside the coordinator: the configuration entry, the
  configuration directory, the current year, the constant \<^verbatim>\<open>EVENT_TYPE\<close> of
  \<^verbatim>\<open>const.py\<close>, and the functions imported from \<^verbatim>\<open>ecole_directe_helper\<close> and
  \<^verbatim>\<open>ecole_directe_formatter\<close>, each returning a value or raising.
\<close>

record ('r, 'v) env =
  entry_data :: "string pydict"
  config_dir :: string
  now_year :: int
  EVENT_TYPE :: string
  get_ecoledirecte_session :: "string pydict \<Rightarrow> string \<Rightarrow> error + EDSession option"
  get_homeworks :: "string \<Rightarrow> EDEleve \<Rightarrow> string \<Rightarrow> error + 'r list"
  get_grades :: "string \<Rightarrow> EDEleve \<Rightarrow> string \<Rightarrow> string \<Rightarrow> error + 'r list"
  get_lessons :: "string \<Rightarrow> EDEleve \<Rightarrow> string \<Rightarrow> string \<Rightarrow> error + 'r list"
  format_grade :: "'r \<Rightarrow> error + 'v pydict"

definition emit :: "'v action \<Rightarrow> ('r, 'v) coordinator \<Rightarrow> ('r, 'v) coordinator" where
  "emit a s = s\<lparr>trace := trace s @ [a]\<rparr>"

text \<open>The events fired on the bus, oldest first.\<close>

fun fired :: "'v action list \<Rightarrow> 'v payload list" where
  "fired [] = []"
| "fired (Fire t p # as) = p # fired as"
| "fired (_ # as) = fired as"

subsection \<open>\<^verbatim>\<open>trigger_event\<close>\<close>

definition trigger_event ::
  "('r, 'v) env \<Rightarrow> string \<Rightarrow> EDEleve \<Rightarrow> 'v pydict \<Rightarrow> ('r, 'v) coordinator \<Rightarrow> ('r, 'v) coordinator"
where
  "trigger_event env event_type eleve event_data s =
     emit (Fire (EVENT_TYPE env) (Payload (fullname eleve) event_type event_data)) s"

subsection \<open>\<^verbatim>\<open>compare_data\<close>\<close>

text \<open>
  \<^verbatim>\<open>{key: format_func(x)[key] for key in compare_keys}\<close>: the formatting function is
  called once per key, and a failing call or a missing key ends the comprehension.
\<close>

fun dict_comp ::
  "('r \<Rightarrow> error + 'v pydict) \<Rightarrow> 'r \<Rightarrow> string list \<Rightarrow> 'v pydict \<Rightarrow> error + 'v pydict"
where
  "dict_comp format_func x [] acc = Inr acc"
| "dict_comp format_func x (key # keys) acc =
     (case format_func x of
        Inl ex \<Rightarrow> Inl ex
      | Inr d \<Rightarrow>
          (case subscript d key of
             Inl ex \<Rightarrow> Inl ex
           | Inr v \<Rightarrow> dict_comp format_func x keys (AList.update key v acc)))"

text \<open>
  The inner loop (lines 198 to 204): \<open>found\<close> for one current item against the previous
  items, the left comprehension evaluated before the right one.
\<close>

fun scan_previous ::
  "('r \<Rightarrow> error + 'v pydict) \<Rightarrow> string list \<Rightarrow> 'r \<Rightarrow> 'r list \<Rightarrow> error + bool"
where
  "scan_previous format_func compare_keys item [] = Inr False"
| "scan_previous format_func compare_keys item (previous_item # rest) =
     (case dict_comp format_func previous_item compare_keys [] of
        Inl ex \<Rightarrow> Inl ex
      | Inr dp \<Rightarrow>
          (case dict_comp format_func item compare_keys [] of
             Inl ex \<Rightarrow> Inl ex
           | Inr di \<Rightarrow>
               if dict_eq dp di then Inr True
               else scan_previous format_func compare_keys item rest))"

text \<open>
  The outer loop (lines 197 to 206), with \<open>not_found_items\<close> as accumulator;
  \<^verbatim>\<open>previous_data[data_key]\<close> is iterated anew for every current item.
\<close>

fun find_not_found ::
  "('r \<Rightarrow> error + 'v pydict) \<Rightarrow> string list \<Rightarrow> 'r entry \<Rightarrow> 'r list \<Rightarrow> 'r list
     \<Rightarrow> error + 'r list"
where
  "find_not_found format_func compare_keys previous_entry [] not_found_items =
     Inr not_found_items"
| "find_not_found format_func compare_keys previous_entry (item # items) not_found_items =
     (case iter previous_entry of
        Inl ex \<Rightarrow> Inl ex
      | Inr previous_items \<Rightarrow>
          (case scan_previous format_func compare_keys item previous_items of
             Inl ex \<Rightarrow> Inl ex
           | Inr found \<Rightarrow>
               find_not_found format_func compare_keys previous_entry items
                 (if found then not_found_items else not_found_items @ [item])))"

text \<open>
  The last loop (lines 207 and 208): one event per queued item; a failing
  \<open>format_func\<close> ends it, the events fired before it stay fired.
\<close>

fun emit_not_found ::
  "('r, 'v) env \<Rightarrow> string \<Rightarrow> EDEleve \<Rightarrow> ('r \<Rightarrow> error + 'v pydict) \<Rightarrow> 'r list
     \<Rightarrow> ('r, 'v) coordinator \<Rightarrow> (error + unit) \<times> ('r, 'v) coordinator"
where
  "emit_not_found env event_type eleve format_func [] s = (Inr (), s)"
| "emit_not_found env event_type eleve format_func (not_found_item # rest) s =
     (case format_func not_found_item of
        Inl ex \<Rightarrow> (Inl ex, s)
      | Inr d \<Rightarrow>
          emit_not_found env event_type eleve format_func rest
            (trigger_event env event_type eleve d s))"

text \<open>
  The body of the \<^verbatim>\<open>try\<close> (lines 191 to 208). The three conjuncts of the guard are
  evaluated left to right; \<^verbatim>\<open>data_key in self.data\<close> raises when \<^verbatim>\<open>self.data\<close>
  is \<^verbatim>\<open>None\<close>.
\<close>

definition compare_data_body ::
  "('r, 'v) env \<Rightarrow> 'r snapshot option \<Rightarrow> string \<Rightarrow> string list \<Rightarrow> string \<Rightarrow> EDEleve
     \<Rightarrow> ('r \<Rightarrow> error + 'v pydict) \<Rightarrow> ('r, 'v) coordinator
     \<Rightarrow> (error + unit) \<times> ('r, 'v) coordinator"
where
  "compare_data_body env previous_data data_key compare_keys event_type eleve format_func s =
     (case previous_data of
        None \<Rightarrow> (Inr (), s)
      | Some previous \<Rightarrow>
          (case previous data_key of
             None \<Rightarrow> (Inr (), s)
           | Some previous_entry \<Rightarrow>
               (case data s of
                  None \<Rightarrow> (Inl TypeError, s)
                | Some current \<Rightarrow>
                    (case current data_key of
                       None \<Rightarrow> (Inr (), s)
                     | Some current_entry \<Rightarrow>
                         (case iter current_entry of
                            Inl ex \<Rightarrow> (Inl ex, s)
                          | Inr items \<Rightarrow>
                              (case find_not_found format_func compare_keys previous_entry
                                      items [] of
                                 Inl ex \<Rightarrow> (Inl ex, s)
                               | Inr not_found_items \<Rightarrow>
                                   emit_not_found env event_type eleve format_func
                                     not_found_items s))))))"

text \<open>
  The method: the body under \<^verbatim>\<open>try\<close>, and the handler of \<^verbatim>\<open>except Exception\<close>
  (lines 209 to 216), which logs a warning with the key and the exception. The first
  component of the result is how the call ends for the caller.
\<close>

definition compare_data ::
  "('r, 'v) env \<Rightarrow> 'r snapshot option \<Rightarrow> string \<Rightarrow> string list \<Rightarrow> string \<Rightarrow> EDEleve
     \<Rightarrow> ('r \<Rightarrow> error + 'v pydict) \<Rightarrow> ('r, 'v) coordinator
     \<Rightarrow> (error + unit) \<times> ('r, 'v) coordinator"
where
  "compare_data env previous_data data_key compare_keys event_type eleve format_func s =
     (case compare_data_body env previous_data data_key compare_keys event_type eleve
             format_func (emit (Call_compare_data data_key) s) of
        (Inr u, s') \<Rightarrow> (Inr (), s')
      | (Inl ex, s') \<Rightarrow>
          (Inr (),
           emit (Log_warning
                   ''Error comparing data: self[%s] previous_data[%s] data_key[%s] ex[%s]''
                   [Self_arg, Previous_data_arg, Str_arg data_key, Ex_arg ex]) s'))"

subsection \<open>\<^verbatim>\<open>_async_update_data\<close>\<close>

text \<open>\<^verbatim>\<open>self.data[key] = value\<close>\<close>

definition setitem ::
  "string \<Rightarrow> 'r entry \<Rightarrow> ('r, 'v) coordinator \<Rightarrow> error + ('r, 'v) coordinator"
where
  "setitem key v s =
     (case data s of None \<Rightarrow> Inl TypeError | Some d \<Rightarrow> Inr (s\<lparr>data := Some (d(key \<mapsto> v))\<rparr>))"

text \<open>
  The handler shared by the three \<^verbatim>\<open>try\<close> blocks of the loop: a warning with the
  exception, and the loop goes on.
\<close>

definition except_warning ::
  "string \<Rightarrow> (error + unit) \<times> ('r, 'v) coordinator \<Rightarrow> ('r, 'v) coordinator"
where
  "except_warning msg r =
     (case r of
        (Inr u, s) \<Rightarrow> s
      | (Inl ex, s) \<Rightarrow> emit (Log_warning msg [Ex_arg ex]) s)"

text \<open>
  Lines 95 to 99. The right-hand side of the assignment is evaluated before the target,
  so nothing is stored when the fetch raises.
\<close>

definition try_homework ::
  "('r, 'v) env \<Rightarrow> EDSession \<Rightarrow> EDEleve \<Rightarrow> ('r, 'v) coordinator
     \<Rightarrow> (error + unit) \<times> ('r, 'v) coordinator"
where
  "try_homework env session eleve s =
     (let s1 = emit (Call_get_homeworks eleve) s in
      case get_homeworks env (token session) eleve (config_dir env) of
        Inl ex \<Rightarrow> (Inl ex, s1)
      | Inr result \<Rightarrow>
          (case setitem (fullname_lower eleve @ ''_homework'') (Items result) s1 of
             Inl ex \<Rightarrow> (Inl ex, s1)
           | Inr s2 \<Rightarrow> (Inr (), s2)))"

text \<open>Lines 106 to 122: the fetch, the store, then \<^verbatim>\<open>compare_data\<close>.\<close>

definition try_grades ::
  "('r, 'v) env \<Rightarrow> 'r snapshot option \<Rightarrow> EDSession \<Rightarrow> string \<Rightarrow> EDEleve
     \<Rightarrow> ('r, 'v) coordinator \<Rightarrow> (error + unit) \<times> ('r, 'v) coordinator"
where
  "try_grades env previous_data session year eleve s =
     (let s1 = emit (Call_get_grades eleve year) s in
      case get_grades env (token session) eleve year (config_dir env) of
        Inl ex \<Rightarrow> (Inl ex, s1)
      | Inr result \<Rightarrow>
          (case setitem (fullname_lower eleve @ ''_grades'') (Items result) s1 of
             Inl ex \<Rightarrow> (Inl ex, s1)
           | Inr s2 \<Rightarrow>
               compare_data env previous_data (fullname_lower eleve @ ''_grades'')
                 [''date'', ''subject'', ''grade_out_of''] ''new_grade'' eleve
                 (format_grade env) s2))"

text \<open>Lines 128 to 132.\<close>

definition try_lessons ::
  "('r, 'v) env \<Rightarrow> EDSession \<Rightarrow> string \<Rightarrow> string \<Rightarrow> EDEleve \<Rightarrow> ('r, 'v) coordinator
     \<Rightarrow> (error + unit) \<times> ('r, 'v) coordinator"
where
  "try_lessons env session edt_date_start edt_date_end eleve s =
     (let s1 = emit (Call_get_lessons eleve edt_date_start edt_date_end) s in
      case get_lessons env (token session) eleve edt_date_start edt_date_end of
        Inl ex \<Rightarrow> (Inl ex, s1)
      | Inr result \<Rightarrow>
          (case setitem (fullname_lower eleve @ ''_lessons'') (Items result) s1 of
             Inl ex \<Rightarrow> (Inl ex, s1)
           | Inr s2 \<Rightarrow> (Inr (), s2)))"

text \<open>The three blocks of the loop body (lines 93 to 135), each behind its module test.\<close>

definition homework_block ::
  "('r, 'v) env \<Rightarrow> EDSession \<Rightarrow> EDEleve \<Rightarrow> ('r, 'v) coordinator \<Rightarrow> ('r, 'v) coordinator"
where
  "homework_block env session eleve s =
     (if ''CAHIER_DE_TEXTES'' \<in> set (modules eleve)
      then except_warning ''Error getting homeworks from ecole directe: %s''
             (try_homework env session eleve s)
      else s)"

definition grades_block ::
  "('r, 'v) env \<Rightarrow> 'r snapshot option \<Rightarrow> EDSession \<Rightarrow> string \<Rightarrow> EDEleve
     \<Rightarrow> ('r, 'v) coordinator \<Rightarrow> ('r, 'v) coordinator"
where
  "grades_block env previous_data session year eleve s =
     (if ''NOTES'' \<in> set (modules eleve)
      then except_warning ''Error getting grades from ecole directe: %s''
             (try_grades env previous_data session year eleve s)
      else s)"

definition lessons_block ::
  "('r, 'v) env \<Rightarrow> EDSession \<Rightarrow> string \<Rightarrow> string \<Rightarrow> EDEleve \<Rightarrow> ('r, 'v) coordinator
     \<Rightarrow> ('r, 'v) coordinator"
where
  "lessons_block env session edt_date_start edt_date_end eleve s =
     (if ''EDT'' \<in> set (modules eleve)
      then except_warning ''Error getting Lessons  from ecole directe: %s''
             (try_lessons env session edt_date_start edt_date_end eleve s)
      else s)"

definition update_eleve ::
  "('r, 'v) env \<Rightarrow> 'r snapshot option \<Rightarrow> EDSession \<Rightarrow> string \<Rightarrow> string \<Rightarrow> string
     \<Rightarrow> EDEleve \<Rightarrow> ('r, 'v) coordinator \<Rightarrow> ('r, 'v) coordinator"
where
  "update_eleve env previous_data session year edt_date_start edt_date_end eleve s =
     lessons_block env session edt_date_start edt_date_end eleve
       (grades_block env previous_data session year eleve
          (homework_block env session eleve s))"

text \<open>The loop \<^verbatim>\<open>for eleve in session.eleves\<close>.\<close>

fun update_eleves ::
  "('r, 'v) env \<Rightarrow> 'r snapshot option \<Rightarrow> EDSession \<Rightarrow> string \<Rightarrow> string \<Rightarrow> string
     \<Rightarrow> EDEleve list \<Rightarrow> ('r, 'v) coordinator \<Rightarrow> ('r, 'v) coordinator"
where
  "update_eleves env previous_data session year edt_date_start edt_date_end [] s = s"
| "update_eleves env previous_data session year edt_date_start edt_date_end (eleve # rest) s =
     update_eleves env previous_data session year edt_date_start edt_date_end rest
       (update_eleve env previous_data session year edt_date_start edt_date_end eleve s)"

text \<open>
  The method (lines 53 to 177). Its result is the value it returns, or the exception it
  raises when session acquisition raises, together with the coordinator it leaves.
  \<open>previous_data\<close> is the shallow copy of \<^verbatim>\<open>self.data\<close> taken on entry.
\<close>

definition async_update_data ::
  "('r, 'v) env \<Rightarrow> ('r, 'v) coordinator
     \<Rightarrow> (error + 'r snapshot option) \<times> ('r, 'v) coordinator"
where
  "async_update_data env s =
     (let previous_data = data s in
      case get_ecoledirecte_session env (entry_data env) (config_dir env) of
        Inl ex \<Rightarrow> (Inl ex, s)
      | Inr None \<Rightarrow> (Inr None, emit (Log_error ''Unable to init ecole directe client'') s)
      | Inr (Some session) \<Rightarrow>
          (let s1 = s\<lparr>data := Some (Map.empty(''session'' \<mapsto> Session_entry session))\<rparr>;
               s2 = update_eleves env previous_data session (year_data (now_year env))
                      ''2024-05-02'' ''2024-05-03'' (eleves session) s1
           in (Inr (data s2), s2)))"

subsection \<open>Notions used to state the properties\<close>

text \<open>
  The dict the formatting function returns for a record (empty when it raises); a record
  is well formed for a set of comparison keys when the formatting function returns a dict
  that has all of them; two records are the same item when their formatted values agree on
  every comparison key; a current record is new when no previous record is the same item.
\<close>

definition formatted :: "('r \<Rightarrow> error + 'v pydict) \<Rightarrow> 'r \<Rightarrow> 'v pydict" where
  "formatted format_func r = (case format_func r of Inr d \<Rightarrow> d | Inl ex \<Rightarrow> [])"

definition well_formed :: "('r \<Rightarrow> error + 'v pydict) \<Rightarrow> string list \<Rightarrow> 'r \<Rightarrow> bool" where
  "well_formed format_func compare_keys r =
     (case format_func r of
        Inl ex \<Rightarrow> False
      | Inr d \<Rightarrow> list_all (\<lambda>key. map_of d key \<noteq> None) compare_keys)"

definition same_item ::
  "('r \<Rightarrow> error + 'v pydict) \<Rightarrow> string list \<Rightarrow> 'r \<Rightarrow> 'r \<Rightarrow> bool" where
  "same_item format_func compare_keys previous_item item =
     list_all (\<lambda>key. map_of (formatted format_func previous_item) key
                      = map_of (formatted format_func item) key) compare_keys"

definition is_new ::
  "('r \<Rightarrow> error + 'v pydict) \<Rightarrow> string list \<Rightarrow> 'r list \<Rightarrow> 'r \<Rightarrow> bool" where
  "is_new format_func compare_keys previous_items item =
     (\<not> list_ex (\<lambda>previous_item. same_item format_func compare_keys previous_item item)
          previous_items)"

text \<open>
  What the comprehension builds from a formatted dict \<open>d\<close> that has all the keys, and the
  payload of the event fired for a record.
\<close>

fun project :: "'v pydict \<Rightarrow> string list \<Rightarrow> 'v pydict \<Rightarrow> 'v pydict" where
  "project d [] acc = acc"
| "project d (key # keys) acc = project d keys (AList.update key (the (map_of d key)) acc)"

definition notification ::
  "string \<Rightarrow> EDEleve \<Rightarrow> ('r \<Rightarrow> error + 'v pydict) \<Rightarrow> 'r \<Rightarrow> 'v payload" where
  "notification event_type eleve format_func r =
     Payload (fullname eleve) event_type (formatted format_func r)"

text \<open>
  An event carries the comparison-key values of \<open>d\<close>; a snapshot (when there is one) has
  a key; an action is a call of a fetch operation or of \<^verbatim>\<open>compare_data\<close>; a call
  returned rather than raised.
\<close>

definition payload_matches :: "string list \<Rightarrow> 'v pydict \<Rightarrow> 'v payload \<Rightarrow> bool" where
  "payload_matches keys d n =
     list_all (\<lambda>key. map_of (payload_data n) key = map_of d key) keys"


definition has_key :: "'r snapshot option \<Rightarrow> string \<Rightarrow> bool" where
  "has_key snapshot key = (case snapshot of None \<Rightarrow> False | Some m \<Rightarrow> m key \<noteq> None)"

fun is_call :: "'v action \<Rightarrow> bool" where
  "is_call (Fire t p) = False"
| "is_call (Log_error msg) = False"
| "is_call (Log_warning msg args) = False"
| "is_call a = True"


text \<open>
  The snapshot and the effects of one pass of the loop body, read off the three
  \<^verbatim>\<open>try\<close> blocks: a fetch that returns stores its result under the category key, a
  fetch that raises stores nothing and logs a warning. \<open>compare_effects\<close> stands for the
  events and log records of \<^verbatim>\<open>compare_data\<close>.
\<close>

definition store_fetched :: "string \<Rightarrow> error + 'r list \<Rightarrow> 'r snapshot \<Rightarrow> 'r snapshot" where
  "store_fetched key result m = (case result of Inl ex \<Rightarrow> m | Inr xs \<Rightarrow> m(key \<mapsto> Items xs))"

definition homework_snapshot :: "('r, 'v) env \<Rightarrow> EDSession \<Rightarrow> EDEleve \<Rightarrow> 'r snapshot \<Rightarrow> 'r snapshot"
where
  "homework_snapshot env session eleve m =
     (if ''CAHIER_DE_TEXTES'' \<in> set (modules eleve)
      then store_fetched (fullname_lower eleve @ ''_homework'')
             (get_homeworks env (token session) eleve (config_dir env)) m
      else m)"

definition grades_snapshot ::
  "('r, 'v) env \<Rightarrow> EDSession \<Rightarrow> string \<Rightarrow> EDEleve \<Rightarrow> 'r snapshot \<Rightarrow> 'r snapshot"
where
  "grades_snapshot env session year eleve m =
     (if ''NOTES'' \<in> set (modules eleve)
      then store_fetched (fullname_lower eleve @ ''_grades'')
             (get_grades env (token session) eleve year (config_dir env)) m
      else m)"

definition lessons_snapshot ::
  "('r, 'v) env \<Rightarrow> EDSession \<Rightarrow> string \<Rightarrow> string \<Rightarrow> EDEleve \<Rightarrow> 'r snapshot \<Rightarrow> 'r snapshot"
where
  "lessons_snapshot env session edt_date_start edt_date_end eleve m =
     (if ''EDT'' \<in> set (modules eleve)
      then store_fetched (fullname_lower eleve @ ''_lessons'')
             (get_lessons env (token session) eleve edt_date_start edt_date_end) m
      else m)"

definition eleve_snapshot ::
  "('r, 'v) env \<Rightarrow> EDSession \<Rightarrow> string \<Rightarrow> string \<Rightarrow> string \<Rightarrow> EDEleve \<Rightarrow> 'r snapshot
     \<Rightarrow> 'r snapshot"
where
  "eleve_snapshot env session year edt_date_start edt_date_end eleve m =
     (let m1 = (if ''CAHIER_DE_TEXTES'' \<in> set (modules eleve)
                then store_fetched (fullname_lower eleve @ ''_homework'')
                       (get_homeworks env (token session) eleve (config_dir env)) m
                else m);
          m2 = (if ''NOTES'' \<in> set (modules eleve)
                then store_fetched (fullname_lower eleve @ ''_grades'')
                       (get_grades env (token session) eleve year (config_dir env)) m1
                else m1)
      in if ''EDT'' \<in> set (modules eleve)
         then store_fetched (fullname_lower eleve @ ''_lessons'')
                (get_lessons env (token session) eleve edt_date_start edt_date_end) m2
         else m2)"

definition fetch_effects :: "'v action \<Rightarrow> string \<Rightarrow> error + 'r list \<Rightarrow> 'v action list" where
  "fetch_effects call msg result =
     call # (case result of Inl ex \<Rightarrow> [Log_warning msg [Ex_arg ex]] | Inr xs \<Rightarrow> [])"

definition homework_effects :: "('r, 'v) env \<Rightarrow> EDSession \<Rightarrow> EDEleve \<Rightarrow> 'v action list" where
  "homework_effects env session eleve =
     (if ''CAHIER_DE_TEXTES'' \<in> set (modules eleve)
      then fetch_effects (Call_get_homeworks eleve)
             ''Error getting homeworks from ecole directe: %s''
             (get_homeworks env (token session) eleve (config_dir env))
      else [])"

definition grades_effects ::
  "('r, 'v) env \<Rightarrow> EDSession \<Rightarrow> string \<Rightarrow> EDEleve \<Rightarrow> 'v action list \<Rightarrow> 'v action list" where
  "grades_effects env session year eleve compare_effects =
     (if ''NOTES'' \<in> set (modules eleve)
      then fetch_effects (Call_get_grades eleve year)
             ''Error getting grades from ecole directe: %s''
             (get_grades env (token session) eleve year (config_dir env))
           @ (case get_grades env (token session) eleve year (config_dir env) of
                Inl ex \<Rightarrow> []
              | Inr xs \<Rightarrow> Call_compare_data (fullname_lower eleve @ ''_grades'')
                          # compare_effects)
      else [])"

definition lessons_effects ::
  "('r, 'v) env \<Rightarrow> EDSession \<Rightarrow> string \<Rightarrow> string \<Rightarrow> EDEleve \<Rightarrow> 'v action list" where
  "lessons_effects env session edt_date_start edt_date_end eleve =
     (if ''EDT'' \<in> set (modules eleve)
      then fetch_effects (Call_get_lessons eleve edt_date_start edt_date_end)
             ''Error getting Lessons  from ecole directe: %s''
             (get_lessons env (token session) eleve edt_date_start edt_date_end)
      else [])"

subsection \<open>Example data\<close>

text \<open>
  Students, grade records already in formatted form (so the formatting function is
  \<open>Inr\<close>), and surroundings in which the homework fetch of the student with id 1 times
  out.
\<close>

definition jane :: EDEleve where
  "jane = \<lparr>eleve_id = ''1'', fullname = ''Jane Doe'', fullname_lower = ''jane doe'',
           modules = [''CAHIER_DE_TEXTES'', ''NOTES'', ''EDT'']\<rparr>"



definition lea :: EDEleve where
  "lea = \<lparr>eleve_id = ''4'', fullname = ''Lea Roy'', fullname_lower = ''lea roy'',
          modules = [''CAHIER_DE_TEXTES'', ''NOTES'', ''EDT'']\<rparr>"

definition example_session :: "EDEleve list \<Rightarrow> EDSession" where
  "example_session es = \<lparr>token = ''token'', eleves = es\<rparr>"

definition grade_1 :: "string pydict" where
  "grade_1 = [(''date'', ''2024-01-01''), (''subject'', ''MATH''), (''grade_out_of'', ''20''),
              (''value'', ''10'')]"

definition grade_2 :: "string pydict" where
  "grade_2 = [(''date'', ''2024-01-02''), (''subject'', ''MATH''), (''grade_out_of'', ''20''),
              (''value'', ''15'')]"

definition grade_1_commented :: "string pydict" where
  "grade_1_commented =
     [(''date'', ''2024-01-01''), (''subject'', ''MATH''), (''grade_out_of'', ''20''),
      (''value'', ''10''), (''comment'', ''Bon travail'')]"

definition homework_1 :: "string pydict" where
  "homework_1 = [(''date'', ''2024-01-03''), (''subject'', ''MATH'')]"

definition lesson_1 :: "string pydict" where
  "lesson_1 = [(''start'', ''2024-05-02 08:00''), (''subject'', ''MATH'')]"

definition example_env :: "EDSession option \<Rightarrow> (string pydict, string) env" where
  "example_env session =
     \<lparr>entry_data = [], config_dir = ''/config'', now_year = 2024,
      EVENT_TYPE = ''ecole_directe_event'',
      get_ecoledirecte_session = (\<lambda>d c. Inr session),
      get_homeworks = (\<lambda>t e c. if eleve_id e = ''1'' then Inl (Raised ''timeout'')
                                else Inr [homework_1]),
      get_grades = (\<lambda>t e y c. Inr [grade_1, grade_2]),
      get_lessons = (\<lambda>t e a b. Inr [lesson_1]),
      format_grade = Inr\<rparr>"

section \<open>Theorems\<close>

subsection \<open>The academic-year label\<close>

text \<open>
  C9. The label given to the grades fetch runs from the year before to the current year
  when the current year is even, and from the current year to the next one when it is
  odd: 2023-2024 in 2024, 2025-2026 in 2025.
\<close>

theorem year_data_label:
  "year_data current_year =
     (if even current_year
      then str (current_year - 1) @ ''-'' @ str current_year
      else str current_year @ ''-'' @ str (current_year + 1))
   \<and> year_data 2024 = ''2023-2024''
   \<and> year_data 2025 = ''2025-2026''"
proof -
  have general: "year_data current_year =
     (if even current_year
      then str (current_year - 1) @ ''-'' @ str current_year
      else str current_year @ ''-'' @ str (current_year + 1))"
    by (simp add: year_data_def even_iff_mod_2_eq_zero)
  have y2024: "year_data 2024 = ''2023-2024''"
    by (simp add: year_data_def str_def digit_char_def)
  have y2025: "year_data 2025 = ''2025-2026''"
    by (simp add: year_data_def str_def digit_char_def)
  from general y2024 y2025 show ?thesis by blast
qed

theorem year_data_label_witness:
  "even (2026::int) \<and> year_data 2026 = ''2025-2026''
   \<and> odd (2027::int) \<and> year_data 2027 = ''2027-2028''"
  using year_data_label [of 2026] year_data_label [of 2027]
  by (simp add: str_def digit_char_def)

subsection \<open>The comparison of two records\<close>

lemma dict_comp_project:
  "format_func x = Inr d \<Longrightarrow> \<forall>key\<in>set keys. map_of d key \<noteq> None \<Longrightarrow>
   dict_comp format_func x keys acc = Inr (project d keys acc)"
  by (induction keys arbitrary: acc) (auto simp: subscript_def split: option.splits)

lemma keys_project:
  "map fst (project d keys acc) = map fst (project d' keys acc')" if "map fst acc = map fst acc'"
  using that
  by (induction keys arbitrary: acc acc') (auto simp: update_keys)

lemma distinct_project:
  "distinct (map fst acc) \<Longrightarrow> distinct (map fst (project d keys acc))"
  by (induction keys arbitrary: acc) (auto simp: distinct_update)

lemma map_of_project:
  "\<forall>key\<in>set keys. map_of d key \<noteq> None \<Longrightarrow>
   map_of (project d keys acc) k = (if k \<in> set keys then map_of d k else map_of acc k)"
  by (induction keys arbitrary: acc) (auto simp: update_conv')

lemma dom_project:
  "dom (map_of (project d keys acc)) = set keys \<union> dom (map_of acc)"
proof (induction keys arbitrary: acc)
  case Nil
  show ?case by simp
next
  case (Cons key keys)
  have "dom (map_of (project d (key # keys) acc))
        = set keys \<union> dom (map_of (AList.update key (the (map_of d key)) acc))"
    using Cons.IH by simp
  also have "\<dots> = set (key # keys) \<union> dom (map_of acc)"
    by (simp add: update_conv')
  finally show ?case .
qed

lemma length_project:
  "length acc = length acc' \<Longrightarrow> map fst acc = map fst acc' \<Longrightarrow>
   length (project d keys acc) = length (project d' keys acc')"
  using keys_project[of acc acc' d keys d'] by (metis length_map)

lemma dict_eq_distinct:
  assumes "length a = length b" "distinct (map fst a)" "dom (map_of a) = dom (map_of b)"
  shows "dict_eq a b \<longleftrightarrow> (\<forall>k\<in>dom (map_of a). map_of a k = map_of b k)"
proof
  assume "dict_eq a b"
  then have *: "\<forall>(k, v)\<in>set a. map_of b k = Some v"
    by (simp add: dict_eq_def list_all_iff)
  show "\<forall>k\<in>dom (map_of a). map_of a k = map_of b k"
  proof
    fix k assume "k \<in> dom (map_of a)"
    then obtain v where v: "map_of a k = Some v" by blast
    then have "(k, v) \<in> set a" by (rule map_of_SomeD)
    with * have "map_of b k = Some v" by blast
    with v show "map_of a k = map_of b k" by simp
  qed
next
  assume r: "\<forall>k\<in>dom (map_of a). map_of a k = map_of b k"
  have "map_of b k = Some v" if "(k, v) \<in> set a" for k v
  proof -
    from that assms(2) have "map_of a k = Some v" by simp
    with r show ?thesis by (metis domI)
  qed
  with assms(1) show "dict_eq a b"
    by (auto simp: dict_eq_def list_all_iff)
qed

lemma dict_eq_project:
  assumes "\<forall>key\<in>set keys. map_of d key \<noteq> None" "\<forall>key\<in>set keys. map_of d' key \<noteq> None"
  shows "dict_eq (project d keys []) (project d' keys [])
         \<longleftrightarrow> (\<forall>key\<in>set keys. map_of d key = map_of d' key)"
proof -
  have "dict_eq (project d keys []) (project d' keys [])
        \<longleftrightarrow> (\<forall>k\<in>dom (map_of (project d keys [])).
               map_of (project d keys []) k = map_of (project d' keys []) k)"
    by (rule dict_eq_distinct)
       (simp_all add: length_project distinct_project dom_project)
  also have "\<dots> \<longleftrightarrow> (\<forall>key\<in>set keys. map_of d key = map_of d' key)"
    using assms by (simp add: dom_project map_of_project)
  finally show ?thesis .
qed

lemma dict_comp_well_formed:
  "well_formed format_func keys r \<Longrightarrow>
   dict_comp format_func r keys [] = Inr (project (formatted format_func r) keys [])"
  by (auto simp: well_formed_def formatted_def list_all_iff split: sum.splits
           intro!: dict_comp_project)

lemma dict_eq_well_formed:
  "well_formed format_func keys p \<Longrightarrow> well_formed format_func keys c \<Longrightarrow>
   dict_eq (project (formatted format_func p) keys []) (project (formatted format_func c) keys [])
   = same_item format_func keys p c"
  unfolding same_item_def list_all_iff
  by (rule dict_eq_project)
     (auto simp: well_formed_def formatted_def list_all_iff split: sum.splits)

lemma scan_previous_same_item:
  assumes "well_formed format_func keys item"
    and "\<forall>p\<in>set previous_items. well_formed format_func keys p"
  shows "scan_previous format_func keys item previous_items
         = Inr (list_ex (\<lambda>p. same_item format_func keys p item) previous_items)"
  using assms(2)
proof (induction previous_items)
  case Nil
  show ?case by simp
next
  case (Cons p ps)
  then show ?case
    using assms(1)
    by (simp add: dict_comp_well_formed dict_eq_well_formed)
qed

lemma find_not_found_filter:
  assumes "\<forall>c\<in>set items. well_formed format_func keys c"
    and "\<forall>p\<in>set previous_items. well_formed format_func keys p"
  shows "find_not_found format_func keys (Items previous_items) items acc
         = Inr (acc @ filter (is_new format_func keys previous_items) items)"
  using assms(1)
proof (induction items arbitrary: acc)
  case Nil
  show ?case by simp
next
  case (Cons c cs)
  then show ?case
    using assms(2)
    by (simp add: iter_def scan_previous_same_item is_new_def)
qed

lemma trace_emit: "trace (emit a s) = trace s @ [a]"
  by (simp add: emit_def)

lemma data_emit: "data (emit a s) = data s"
  by (simp add: emit_def)

lemma emit_not_found_all:
  assumes "\<forall>r\<in>set xs. \<exists>d. format_func r = Inr d"
  shows "emit_not_found env event_type eleve format_func xs s
         = (Inr (), s\<lparr>trace := trace s
               @ map (\<lambda>r. Fire (EVENT_TYPE env) (notification event_type eleve format_func r)) xs\<rparr>)"
  using assms
proof (induction xs arbitrary: s)
  case Nil
  show ?case by simp
next
  case (Cons x xs)
  then show ?case
    by (auto simp: trigger_event_def emit_def notification_def formatted_def)
qed

lemma well_formed_formats: "well_formed format_func keys r \<Longrightarrow> \<exists>d. format_func r = Inr d"
  by (auto simp: well_formed_def split: sum.splits)

subsection \<open>What \<^verbatim>\<open>compare_data\<close> does on well-formed records\<close>

lemma compare_data_new_items:
  assumes "previous_data = Some previous" "previous data_key = Some (Items previous_items)"
    and "data s = Some current" "current data_key = Some (Items items)"
    and "\<forall>c\<in>set items. well_formed format_func keys c"
    and "\<forall>p\<in>set previous_items. well_formed format_func keys p"
  shows "compare_data env previous_data data_key keys event_type eleve format_func s
         = (Inr (), s\<lparr>trace := trace s @ Call_compare_data data_key
               # map (\<lambda>r. Fire (EVENT_TYPE env) (notification event_type eleve format_func r))
                   (filter (is_new format_func keys previous_items) items)\<rparr>)"
proof -
  have fmt: "\<forall>r\<in>set (filter (is_new format_func keys previous_items) items).
               \<exists>d. format_func r = Inr d"
    using assms(5) by (auto dest: well_formed_formats)
  show ?thesis
    unfolding compare_data_def compare_data_body_def
    using assms(1-4)
    by (simp add: data_emit iter_def find_not_found_filter[OF assms(5,6)]
          emit_not_found_all[OF fmt] trace_emit emit_def)
qed

lemma fired_append: "fired (xs @ ys) = fired xs @ fired ys"
  by (induction xs rule: fired.induct) simp_all

lemma fired_map_Fire: "fired (map (\<lambda>r. Fire t (g r)) xs) = map g xs"
  by (induction xs) simp_all

text \<open>
  C2. When both snapshots hold a sequence under the category key and every record of the
  two sequences is well formed for the comparison keys, \<^verbatim>\<open>compare_data\<close> fires
  exactly one event per current record that is the same item as no previous record, in
  the order of the current sequence. The witness is the example of the claim: one
  previous grade, the same grade and a later one now, one event, for the later one.
\<close>

theorem compare_data_notifies_new:
  assumes "previous_data = Some previous" "previous data_key = Some (Items previous_items)"
    and "data s = Some current" "current data_key = Some (Items items)"
    and "\<forall>c\<in>set items. well_formed format_func keys c"
    and "\<forall>p\<in>set previous_items. well_formed format_func keys p"
  shows "fired (trace (snd (compare_data env previous_data data_key keys event_type eleve
                              format_func s)))
         = fired (trace s)
           @ map (notification event_type eleve format_func)
               (filter (\<lambda>item. \<not> list_ex (\<lambda>previous_item.
                                   same_item format_func keys previous_item item)
                                 previous_items) items)"
  using compare_data_new_items[OF assms, of env event_type eleve]
  by (simp add: fired_append fired_map_Fire is_new_def[abs_def])

theorem compare_data_notifies_new_witness:
  "fired (trace (snd (compare_data (example_env None)
       (Some [''jane doe_grades'' \<mapsto> Items [grade_1]])
       ''jane doe_grades'' [''date'', ''subject'', ''grade_out_of''] ''new_grade'' jane Inr
       \<lparr>data = Some [''jane doe_grades'' \<mapsto> Items [grade_1, grade_2]], trace = []\<rparr>)))
   = [Payload ''Jane Doe'' ''new_grade'' grade_2]"
proof -
  let ?keys = "[''date'', ''subject'', ''grade_out_of'']"
  have wf: "well_formed Inr ?keys grade_1" "well_formed Inr ?keys grade_2"
    by (simp_all add: well_formed_def grade_1_def grade_2_def)
  show ?thesis
    using compare_data_notifies_new
      [of "Some [''jane doe_grades'' \<mapsto> Items [grade_1]]"
          "[''jane doe_grades'' \<mapsto> Items [grade_1]]" "''jane doe_grades''" "[grade_1]"
          "\<lparr>data = Some [''jane doe_grades'' \<mapsto> Items [grade_1, grade_2]], trace = []\<rparr>"
          "[''jane doe_grades'' \<mapsto> Items [grade_1, grade_2]]" "[grade_1, grade_2]"
          Inr ?keys "example_env None" "''new_grade''" jane]
      wf
    by (simp add: same_item_def formatted_def notification_def jane_def grade_1_def grade_2_def)
qed

lemma same_item_trans:
  "same_item f keys a b \<Longrightarrow> same_item f keys b c \<Longrightarrow> same_item f keys a c"
  by (simp add: same_item_def list_all_iff)

lemma same_item_sym: "same_item f keys a b \<Longrightarrow> same_item f keys b a"
  by (simp add: same_item_def list_all_iff)

lemma is_new_same_item:
  assumes "is_new f keys previous_items item" "same_item f keys c item"
  shows "is_new f keys previous_items c"
  using assms unfolding is_new_def list_ex_iff
  by (blast intro: same_item_trans)

text \<open>
  C10. With well-formed records, when a current record matches no previous record, the
  events fired by this call that carry its comparison-key values are as many as the current
  records that are the same item as it: one per occurrence (\<open>k\<close> events for \<open>k\<close>
  occurrences, \<open>k \<ge> 2\<close> included), not one per distinct value.
\<close>

theorem compare_data_notifies_each_occurrence:
  assumes "previous_data = Some previous" "previous data_key = Some (Items previous_items)"
    and "data s = Some current" "current data_key = Some (Items items)"
    and "\<forall>c\<in>set items. well_formed format_func keys c"
    and "\<forall>p\<in>set previous_items. well_formed format_func keys p"
    and "item \<in> set items"
    and "\<not> list_ex (\<lambda>previous_item. same_item format_func keys previous_item item)
             previous_items"
  shows "length (filter (payload_matches keys (formatted format_func item))
           (drop (length (fired (trace s)))
              (fired (trace (snd (compare_data env previous_data data_key keys event_type
                                    eleve format_func s))))))
         = length (filter (\<lambda>c. same_item format_func keys c item) items)"
proof -
  have new: "is_new format_func keys previous_items item"
    using assms(8) by (simp add: is_new_def)
  have "filter (payload_matches keys (formatted format_func item))
          (map (notification event_type eleve format_func)
             (filter (is_new format_func keys previous_items) items))
        = map (notification event_type eleve format_func)
            (filter (\<lambda>c. same_item format_func keys c item)
               (filter (is_new format_func keys previous_items) items))"
    by (simp add: filter_map o_def payload_matches_def notification_def same_item_def)
  moreover have "filter (\<lambda>c. same_item format_func keys c item)
                   (filter (is_new format_func keys previous_items) items)
                 = filter (\<lambda>c. same_item format_func keys c item) items"
    using is_new_same_item[OF new] by (auto intro: filter_cong)
  ultimately show ?thesis
    using compare_data_new_items[OF assms(1-6), of env event_type eleve]
    by (simp add: fired_append fired_map_Fire)
qed

theorem compare_data_notifies_each_occurrence_witness:
  "length (filter (payload_matches [''date'', ''subject'', ''grade_out_of''] grade_2)
     (drop (length (fired ([]::string action list)))
        (fired (trace (snd (compare_data (example_env None)
           (Some [''jane doe_grades'' \<mapsto> Items [grade_1]])
           ''jane doe_grades'' [''date'', ''subject'', ''grade_out_of''] ''new_grade'' jane Inr
           \<lparr>data = Some [''jane doe_grades'' \<mapsto> Items [grade_2, grade_1, grade_2]],
            trace = []\<rparr>))))))
   = 2"
proof -
  let ?keys = "[''date'', ''subject'', ''grade_out_of'']"
  have wf: "well_formed Inr ?keys grade_1" "well_formed Inr ?keys grade_2"
    by (simp_all add: well_formed_def grade_1_def grade_2_def)
  have new: "\<not> list_ex (\<lambda>previous_item. same_item Inr ?keys previous_item grade_2) [grade_1]"
    by (simp add: same_item_def formatted_def grade_1_def grade_2_def)
  have count: "length (filter (\<lambda>c. same_item Inr ?keys c grade_2) [grade_2, grade_1, grade_2])
               = 2"
    by (simp add: same_item_def formatted_def grade_1_def grade_2_def)
  show ?thesis
    using compare_data_notifies_each_occurrence
      [of "Some [''jane doe_grades'' \<mapsto> Items [grade_1]]"
          "[''jane doe_grades'' \<mapsto> Items [grade_1]]" "''jane doe_grades''" "[grade_1]"
          "\<lparr>data = Some [''jane doe_grades'' \<mapsto> Items [grade_2, grade_1, grade_2]],
            trace = []\<rparr>"
          "[''jane doe_grades'' \<mapsto> Items [grade_2, grade_1, grade_2]]"
          "[grade_2, grade_1, grade_2]"
          Inr ?keys grade_2 "example_env None" "''new_grade''" jane]
      wf new count
    by (simp add: formatted_def)
qed

text \<open>
  C7. With well-formed records, the test of the inner loop on a current and a previous
  record succeeds exactly when their formatted values are equal on every comparison key,
  and \<^verbatim>\<open>compare_data\<close> fires an event for a current record exactly when no previous
  record agrees with it on every comparison key: the events are those of the current
  records that disagree with each previous record on some comparison key, in order. So
  when every current record agrees with some previous record no event is fired; and no
  other field decides: a formatting function that gives the same values on the comparison
  keys, whatever it gives elsewhere, has events fired for the same records.
\<close>

theorem compare_data_identity_by_keys:
  assumes "previous_data = Some previous" "previous data_key = Some (Items previous_items)"
    and "data s = Some current" "current data_key = Some (Items items)"
    and "\<forall>c\<in>set items. well_formed format_func keys c"
    and "\<forall>p\<in>set previous_items. well_formed format_func keys p"
  shows "(\<forall>c\<in>set items. \<forall>p\<in>set previous_items.
            scan_previous format_func keys c [p]
            = Inr (\<forall>key\<in>set keys. map_of (formatted format_func p) key
                                    = map_of (formatted format_func c) key))
         \<and> fired (trace (snd (compare_data env previous_data data_key keys event_type eleve
                                 format_func s)))
           = fired (trace s)
             @ map (notification event_type eleve format_func)
                 (filter (\<lambda>c. \<not> (\<exists>p\<in>set previous_items.
                                     \<forall>key\<in>set keys. map_of (formatted format_func p) key
                                                     = map_of (formatted format_func c) key))
                    items)
         \<and> ((\<forall>c\<in>set items. \<exists>p\<in>set previous_items.
               \<forall>key\<in>set keys. map_of (formatted format_func p) key
                               = map_of (formatted format_func c) key)
              \<longrightarrow> fired (trace (snd (compare_data env previous_data data_key keys event_type
                                        eleve format_func s)))
                  = fired (trace s))
         \<and> ((\<forall>r\<in>set items \<union> set previous_items.
                 well_formed other_format keys r
                 \<and> (\<forall>key\<in>set keys. map_of (formatted other_format r) key
                                     = map_of (formatted format_func r) key))
              \<longrightarrow> fired (trace (snd (compare_data env previous_data data_key keys event_type
                                        eleve other_format s)))
                  = fired (trace s)
                    @ map (notification event_type eleve other_format)
                        (filter (\<lambda>c. \<not> (\<exists>p\<in>set previous_items.
                                     \<forall>key\<in>set keys. map_of (formatted format_func p) key
                                                     = map_of (formatted format_func c) key))
                           items))"
proof (intro conjI ballI impI)
  fix c p assume "c \<in> set items" "p \<in> set previous_items"
  with assms(5,6) have "well_formed format_func keys c" "\<forall>q\<in>set [p]. well_formed format_func keys q"
    by simp_all
  from scan_previous_same_item[OF this]
  show "scan_previous format_func keys c [p]
      = Inr (\<forall>key\<in>set keys. map_of (formatted format_func p) key
                              = map_of (formatted format_func c) key)"
    by (simp add: same_item_def list_all_iff del: scan_previous.simps)
next
  show "fired (trace (snd (compare_data env previous_data data_key keys event_type eleve
                             format_func s)))
        = fired (trace s)
          @ map (notification event_type eleve format_func)
              (filter (\<lambda>c. \<not> (\<exists>p\<in>set previous_items.
                                  \<forall>key\<in>set keys. map_of (formatted format_func p) key
                                                  = map_of (formatted format_func c) key))
                 items)"
    using compare_data_new_items[OF assms, of env event_type eleve]
    by (simp add: fired_append fired_map_Fire is_new_def[abs_def] list_ex_iff same_item_def
          list_all_iff)
next
  assume all: "\<forall>c\<in>set items. \<exists>p\<in>set previous_items.
               \<forall>key\<in>set keys. map_of (formatted format_func p) key
                               = map_of (formatted format_func c) key"
  then have "filter (is_new format_func keys previous_items) items = []"
    by (auto simp: filter_empty_conv is_new_def list_ex_iff same_item_def list_all_iff)
  then show "fired (trace (snd (compare_data env previous_data data_key keys event_type
                                  eleve format_func s)))
             = fired (trace s)"
    using compare_data_new_items[OF assms, of env event_type eleve]
    by (simp add: fired_append)
next
  assume other: "\<forall>r\<in>set items \<union> set previous_items.
                 well_formed other_format keys r
                 \<and> (\<forall>key\<in>set keys. map_of (formatted other_format r) key
                                     = map_of (formatted format_func r) key)"
  then have wf: "\<forall>c\<in>set items. well_formed other_format keys c"
                "\<forall>p\<in>set previous_items. well_formed other_format keys p"
    by auto
  have "filter (is_new other_format keys previous_items) items
        = filter (\<lambda>c. \<not> (\<exists>p\<in>set previous_items.
                            \<forall>key\<in>set keys. map_of (formatted format_func p) key
                                            = map_of (formatted format_func c) key))
            items"
    using other
    by (intro filter_cong refl) (simp add: is_new_def list_ex_iff same_item_def list_all_iff)
  then show "fired (trace (snd (compare_data env previous_data data_key keys event_type
                                  eleve other_format s)))
             = fired (trace s)
               @ map (notification event_type eleve other_format)
                   (filter (\<lambda>c. \<not> (\<exists>p\<in>set previous_items.
                                     \<forall>key\<in>set keys. map_of (formatted format_func p) key
                                                     = map_of (formatted format_func c) key))
                      items)"
    using compare_data_new_items[OF assms(1-4) wf, of env event_type eleve]
    by (simp add: fired_append fired_map_Fire)
qed

theorem compare_data_identity_by_keys_witness:
  "scan_previous Inr [''date'', ''subject'', ''grade_out_of''] grade_1_commented [grade_1]
     = (Inr True :: error + bool)
   \<and> scan_previous Inr [''date'', ''subject'', ''grade_out_of''] grade_2 [grade_1]
     = (Inr False :: error + bool)
   \<and> fired (trace (snd (compare_data (example_env None)
         (Some [''jane doe_grades'' \<mapsto> Items [grade_1]])
         ''jane doe_grades'' [''date'', ''subject'', ''grade_out_of''] ''new_grade'' jane Inr
         \<lparr>data = Some [''jane doe_grades'' \<mapsto> Items [grade_1_commented, grade_2]],
          trace = []\<rparr>)))
     = [Payload ''Jane Doe'' ''new_grade'' grade_2]
   \<and> fired (trace (snd (compare_data (example_env None)
         (Some [''jane doe_grades'' \<mapsto> Items [grade_1]])
         ''jane doe_grades'' [''date'', ''subject'', ''grade_out_of''] ''new_grade'' jane Inr
         \<lparr>data = Some [''jane doe_grades'' \<mapsto> Items [grade_1_commented]], trace = []\<rparr>)))
     = []"
proof -
  let ?keys = "[''date'', ''subject'', ''grade_out_of'']"
  let ?prev = "[''jane doe_grades'' \<mapsto> Items [grade_1]] :: string pydict snapshot"
  let ?cur2 = "[''jane doe_grades'' \<mapsto> Items [grade_1_commented, grade_2]]
               :: string pydict snapshot"
  let ?cur1 = "[''jane doe_grades'' \<mapsto> Items [grade_1_commented]] :: string pydict snapshot"
  let ?s2 = "\<lparr>data = Some ?cur2, trace = []\<rparr> :: (string pydict, string) coordinator"
  let ?s1 = "\<lparr>data = Some ?cur1, trace = []\<rparr> :: (string pydict, string) coordinator"
  have wf2: "\<forall>c\<in>set [grade_1_commented, grade_2]. well_formed Inr ?keys c"
    and wf1: "\<forall>c\<in>set [grade_1_commented]. well_formed Inr ?keys c"
    and wfp: "\<forall>p\<in>set [grade_1]. well_formed Inr ?keys p"
    by (simp_all add: well_formed_def grade_1_def grade_1_commented_def grade_2_def)
  have same: "(\<forall>key\<in>set ?keys. map_of (formatted Inr grade_1) key
                               = map_of (formatted Inr grade_1_commented) key) = True"
    by (simp add: formatted_def grade_1_def grade_1_commented_def)
  have differ: "(\<forall>key\<in>set ?keys. map_of (formatted Inr grade_1) key
                                   = map_of (formatted Inr grade_2) key) = False"
    by (simp add: formatted_def grade_1_def grade_2_def)
  have p: "?prev ''jane doe_grades'' = Some (Items [grade_1])"
    and c2: "?cur2 ''jane doe_grades'' = Some (Items [grade_1_commented, grade_2])"
    and c1: "?cur1 ''jane doe_grades'' = Some (Items [grade_1_commented])"
    and d2: "data ?s2 = Some ?cur2" and d1: "data ?s1 = Some ?cur1"
    by simp_all
  note two = compare_data_identity_by_keys
    [where previous_data = "Some ?prev" and previous = ?prev
       and data_key = "''jane doe_grades''" and previous_items = "[grade_1]"
       and s = ?s2 and current = ?cur2 and items = "[grade_1_commented, grade_2]"
       and format_func = Inr and keys = ?keys and env = "example_env None"
       and event_type = "''new_grade''" and eleve = jane and other_format = Inr,
     OF refl p d2 c2 wf2 wfp]
  note one = compare_data_identity_by_keys
    [where previous_data = "Some ?prev" and previous = ?prev
       and data_key = "''jane doe_grades''" and previous_items = "[grade_1]"
       and s = ?s1 and current = ?cur1 and items = "[grade_1_commented]"
       and format_func = Inr and keys = ?keys and env = "example_env None"
       and event_type = "''new_grade''" and eleve = jane and other_format = Inr,
     OF refl p d1 c1 wf1 wfp]
  from two have scan: "\<forall>c\<in>set [grade_1_commented, grade_2]. \<forall>p\<in>set [grade_1].
            scan_previous Inr ?keys c [p]
            = Inr (\<forall>key\<in>set ?keys. map_of (formatted Inr p) key = map_of (formatted Inr c) key)"
    by (rule conjunct1)
  have a: "scan_previous Inr ?keys grade_1_commented [grade_1] = Inr True"
    using scan same by (simp del: scan_previous.simps)
  have b: "scan_previous Inr ?keys grade_2 [grade_1] = Inr False"
    using scan differ by (simp del: scan_previous.simps)
  from two have "fired (trace (snd (compare_data (example_env None) (Some ?prev)
                    ''jane doe_grades'' ?keys ''new_grade'' jane Inr ?s2)))
           = fired (trace ?s2)
             @ map (notification ''new_grade'' jane Inr)
                 (filter (\<lambda>c. \<not> (\<exists>p\<in>set [grade_1].
                                     \<forall>key\<in>set ?keys. map_of (formatted Inr p) key
                                                     = map_of (formatted Inr c) key))
                    [grade_1_commented, grade_2])"
    by (rule conjunct1[OF conjunct2])
  then have c: "fired (trace (snd (compare_data (example_env None) (Some ?prev)
                    ''jane doe_grades'' ?keys ''new_grade'' jane Inr ?s2)))
                = [Payload ''Jane Doe'' ''new_grade'' grade_2]"
    using same differ
    by (simp add: notification_def formatted_def jane_def)
  from one have "(\<forall>c\<in>set [grade_1_commented]. \<exists>p\<in>set [grade_1].
               \<forall>key\<in>set ?keys. map_of (formatted Inr p) key = map_of (formatted Inr c) key)
              \<longrightarrow> fired (trace (snd (compare_data (example_env None) (Some ?prev)
                    ''jane doe_grades'' ?keys ''new_grade'' jane Inr ?s1)))
                  = fired (trace ?s1)"
    by (rule conjunct1[OF conjunct2[OF conjunct2]])
  then have d: "fired (trace (snd (compare_data (example_env None) (Some ?prev)
                    ''jane doe_grades'' ?keys ''new_grade'' jane Inr ?s1))) = []"
    using same by simp
  from a b c d show ?thesis by blast
qed

subsection \<open>\<^verbatim>\<open>compare_data\<close> on any input\<close>

lemma emit_not_found_effects:
  fixes env :: "('r, 'v) env"
  shows "\<exists>r es. (\<forall>a\<in>set es. \<not> is_call a) \<and>
     (\<forall>s. emit_not_found env event_type eleve format_func xs s
          = (r, s\<lparr>trace := trace s @ es\<rparr>))"
proof (induction xs)
  case Nil
  have "(\<forall>a\<in>set []. \<not> is_call (a :: 'v action)) \<and>
        (\<forall>s. emit_not_found env event_type eleve format_func [] s
            = (Inr (), s\<lparr>trace := trace s @ []\<rparr>))"
    by simp
  then show ?case by blast
next
  case (Cons x xs)
  show ?case
  proof (cases "format_func x")
    case (Inl ex)
    then have "(\<forall>a\<in>set []. \<not> is_call (a :: 'v action)) \<and>
               (\<forall>s. emit_not_found env event_type eleve format_func (x # xs) s
                  = (Inl ex, s\<lparr>trace := trace s @ []\<rparr>))"
      by simp
    then show ?thesis by blast
  next
    case (Inr d)
    from Cons.IH obtain r es where
      no: "\<forall>a\<in>set es. \<not> is_call a" and
      IH: "\<And>s. emit_not_found env event_type eleve format_func xs s
               = (r, s\<lparr>trace := trace s @ es\<rparr>)"
      by blast
    let ?es = "Fire (EVENT_TYPE env) (Payload (fullname eleve) event_type d) # es"
    have "(\<forall>a\<in>set ?es. \<not> is_call a) \<and>
          (\<forall>s. emit_not_found env event_type eleve format_func (x # xs) s
            = (r, s\<lparr>trace := trace s @ ?es\<rparr>))"
      using Inr no by (simp add: IH trigger_event_def emit_def)
    then show ?thesis by blast
  qed
qed

lemma compare_data_body_effects:
  fixes d :: "'r snapshot option" and env :: "('r, 'v) env"
  shows "\<exists>r es. (\<forall>a\<in>set es. \<not> is_call a) \<and>
     (\<forall>s. data s = d \<longrightarrow>
        compare_data_body env previous_data data_key keys event_type eleve format_func s
        = (r, s\<lparr>trace := trace s @ es\<rparr>))"
proof (cases "\<exists>previous previous_entry current current_entry items not_found_items.
                previous_data = Some previous \<and> previous data_key = Some previous_entry
                \<and> d = Some current \<and> current data_key = Some current_entry
                \<and> iter current_entry = Inr items
                \<and> find_not_found format_func keys previous_entry items [] = Inr not_found_items")
  case True
  then obtain previous previous_entry current current_entry items not_found_items where
    *: "previous_data = Some previous" "previous data_key = Some previous_entry"
       "d = Some current" "current data_key = Some current_entry"
       "iter current_entry = Inr items"
       "find_not_found format_func keys previous_entry items [] = Inr not_found_items"
    by blast
  from emit_not_found_effects[of env event_type eleve format_func not_found_items]
  obtain r es where
    "\<forall>a\<in>set es. \<not> is_call a"
    "\<And>s. emit_not_found env event_type eleve format_func not_found_items s
          = (r, s\<lparr>trace := trace s @ es\<rparr>)"
    by blast
  then have "(\<forall>a\<in>set es. \<not> is_call a) \<and>
     (\<forall>s. data s = d \<longrightarrow>
        compare_data_body env previous_data data_key keys event_type eleve format_func s
        = (r, s\<lparr>trace := trace s @ es\<rparr>))"
    using * by (simp add: compare_data_body_def)
  then show ?thesis by blast
next
  case False
  define r0 where "r0 = fst (compare_data_body env previous_data data_key keys event_type
                               eleve format_func \<lparr>data = d, trace = []\<rparr>)"
  have "(\<forall>a\<in>set []. \<not> is_call (a :: 'v action)) \<and>
     (\<forall>s. data s = d \<longrightarrow>
        compare_data_body env previous_data data_key keys event_type eleve format_func s
        = (r0, s\<lparr>trace := trace s @ []\<rparr>))"
    using False unfolding r0_def compare_data_body_def
    by (auto split: option.splits sum.splits)
  then show ?thesis by blast
qed

lemma compare_data_effects:
  fixes d :: "'r snapshot option" and env :: "('r, 'v) env"
  shows "\<exists>es. (\<forall>a\<in>set es. \<not> is_call a) \<and>
     (\<forall>s. data s = d \<longrightarrow>
        compare_data env previous_data data_key keys event_type eleve format_func s
        = (Inr (), s\<lparr>trace := trace s @ Call_compare_data data_key # es\<rparr>))"
proof -
  from compare_data_body_effects[of d env previous_data data_key keys event_type eleve format_func]
  obtain r es where
    no: "\<forall>a\<in>set es. \<not> is_call a" and
    body: "\<And>s. data s = d \<Longrightarrow>
       compare_data_body env previous_data data_key keys event_type eleve format_func s
       = (r, s\<lparr>trace := trace s @ es\<rparr>)"
    by blast
  show ?thesis
  proof (cases r)
    case (Inr u)
    have "(\<forall>a\<in>set es. \<not> is_call a) \<and>
     (\<forall>s. data s = d \<longrightarrow>
      compare_data env previous_data data_key keys event_type eleve format_func s
      = (Inr (), s\<lparr>trace := trace s @ Call_compare_data data_key # es\<rparr>))"
      using Inr no by (simp add: compare_data_def body data_emit trace_emit emit_def)
    then show ?thesis by blast
  next
    case (Inl ex)
    let ?es = "es @ [Log_warning
                ''Error comparing data: self[%s] previous_data[%s] data_key[%s] ex[%s]''
                [Self_arg, Previous_data_arg, Str_arg data_key, Ex_arg ex]]"
    have "(\<forall>a\<in>set ?es. \<not> is_call a) \<and>
     (\<forall>s. data s = d \<longrightarrow>
      compare_data env previous_data data_key keys event_type eleve format_func s
      = (Inr (), s\<lparr>trace := trace s @ Call_compare_data data_key # ?es\<rparr>))"
      using Inl no by (simp add: compare_data_def body data_emit trace_emit emit_def)
    then show ?thesis by blast
  qed
qed

lemma compare_data_returns: 
  "fst (compare_data env previous_data data_key keys event_type eleve format_func s) = Inr ()"
  using compare_data_effects[of "data s" env previous_data data_key keys event_type eleve format_func]
  by auto

lemma compare_data_keeps_data: 
  "data (snd (compare_data env previous_data data_key keys event_type eleve format_func s)) = data s"
  using compare_data_effects[of "data s" env previous_data data_key keys event_type eleve format_func]
  by auto

text \<open>
  C5. When the previous snapshot is absent, or lacks the category key, or the current
  snapshot lacks it, \<^verbatim>\<open>compare_data\<close> returns normally, fires no event and leaves
  \<^verbatim>\<open>self.data\<close> as it is; in the cases of the claim (the current snapshot being
  a dict) it logs nothing either, its invocation being the only thing recorded.
\<close>

theorem compare_data_guard_noop:
  assumes "previous_data = None \<or> \<not> has_key previous_data data_key
           \<or> \<not> has_key (data s) data_key"
  shows "fst (compare_data env previous_data data_key keys event_type eleve format_func s)
           = Inr ()
         \<and> fired (trace (snd (compare_data env previous_data data_key keys event_type eleve
                                 format_func s)))
           = fired (trace s)
         \<and> data (snd (compare_data env previous_data data_key keys event_type eleve
                         format_func s))
           = data s
         \<and> (previous_data = None \<or> \<not> has_key previous_data data_key \<or> data s \<noteq> None
              \<longrightarrow> snd (compare_data env previous_data data_key keys event_type eleve
                         format_func s)
                  = emit (Call_compare_data data_key) s)"
  using assms
  unfolding compare_data_def compare_data_body_def has_key_def
  by (auto simp: data_emit trace_emit fired_append emit_def split: option.splits)

theorem compare_data_guard_noop_witness:
  "compare_data (example_env None) None ''jane doe_grades'' [''date'', ''subject'', ''grade_out_of'']
     ''new_grade'' jane Inr
     \<lparr>data = Some [''jane doe_grades'' \<mapsto> Items [grade_1]], trace = []\<rparr>
   = (Inr (), emit (Call_compare_data ''jane doe_grades'')
                \<lparr>data = Some [''jane doe_grades'' \<mapsto> Items [grade_1]], trace = []\<rparr>)
   \<and> compare_data (example_env None) (Some [''jane doe_homework'' \<mapsto> Items [grade_1]])
       ''jane doe_grades'' [''date'', ''subject'', ''grade_out_of''] ''new_grade'' jane Inr
       \<lparr>data = Some [''jane doe_grades'' \<mapsto> Items [grade_1]], trace = []\<rparr>
     = (Inr (), emit (Call_compare_data ''jane doe_grades'')
                  \<lparr>data = Some [''jane doe_grades'' \<mapsto> Items [grade_1]], trace = []\<rparr>)
   \<and> compare_data (example_env None) (Some [''jane doe_grades'' \<mapsto> Items [grade_1]])
       ''jane doe_grades'' [''date'', ''subject'', ''grade_out_of''] ''new_grade'' jane Inr
       \<lparr>data = Some [''jane doe_homework'' \<mapsto> Items [grade_2]], trace = []\<rparr>
     = (Inr (), emit (Call_compare_data ''jane doe_grades'')
                  \<lparr>data = Some [''jane doe_homework'' \<mapsto> Items [grade_2]], trace = []\<rparr>)"
  using
    compare_data_guard_noop
      [of None "''jane doe_grades''"
          "\<lparr>data = Some [''jane doe_grades'' \<mapsto> Items [grade_1]], trace = []\<rparr>"
          "example_env None" "[''date'', ''subject'', ''grade_out_of'']" "''new_grade''" jane Inr]
    compare_data_guard_noop
      [of "Some [''jane doe_homework'' \<mapsto> Items [grade_1]]" "''jane doe_grades''"
          "\<lparr>data = Some [''jane doe_grades'' \<mapsto> Items [grade_1]], trace = []\<rparr>"
          "example_env None" "[''date'', ''subject'', ''grade_out_of'']" "''new_grade''" jane Inr]
    compare_data_guard_noop
      [of "Some [''jane doe_grades'' \<mapsto> Items [grade_1]]" "''jane doe_grades''"
          "\<lparr>data = Some [''jane doe_homework'' \<mapsto> Items [grade_2]], trace = []\<rparr>"
          "example_env None" "[''date'', ''subject'', ''grade_out_of'']" "''new_grade''" jane Inr]
  by (simp add: has_key_def prod_eq_iff)

text \<open>
  C8. Two calls of \<^verbatim>\<open>compare_data\<close> in a row, with the same arguments and the same
  previous snapshot, fire the same sequence of events.
\<close>

theorem compare_data_twice:
  "\<exists>notifications.
     fired (trace (snd (compare_data env previous_data data_key keys event_type eleve
                          format_func s)))
       = fired (trace s) @ notifications
   \<and> fired (trace (snd (compare_data env previous_data data_key keys event_type eleve
         format_func
         (snd (compare_data env previous_data data_key keys event_type eleve format_func s)))))
       = fired (trace (snd (compare_data env previous_data data_key keys event_type eleve
                              format_func s)))
         @ notifications"
proof -
  let ?s1 = "snd (compare_data env previous_data data_key keys event_type eleve format_func s)"
  from compare_data_effects[of "data s" env previous_data data_key keys event_type eleve
         format_func]
  obtain es where
    run: "\<And>t. data t = data s \<Longrightarrow>
       compare_data env previous_data data_key keys event_type eleve format_func t
       = (Inr (), t\<lparr>trace := trace t @ Call_compare_data data_key # es\<rparr>)"
    by blast
  have first: "?s1 = s\<lparr>trace := trace s @ Call_compare_data data_key # es\<rparr>"
    by (simp add: run)
  then have "data ?s1 = data s" by simp
  then have second:
    "snd (compare_data env previous_data data_key keys event_type eleve format_func ?s1)
     = ?s1\<lparr>trace := trace ?s1 @ Call_compare_data data_key # es\<rparr>"
    by (simp add: run)
  have "fired (trace ?s1) = fired (trace s) @ fired es"
    by (simp add: first fired_append)
  moreover have
    "fired (trace (snd (compare_data env previous_data data_key keys event_type eleve
                          format_func ?s1)))
     = fired (trace ?s1) @ fired es"
    by (simp add: second fired_append)
  ultimately show ?thesis by blast
qed

subsection \<open>One pass of the loop body\<close>

lemma homework_block_run:
  assumes "data s = Some m"
  shows "homework_block env session eleve s
         = (if ''CAHIER_DE_TEXTES'' \<in> set (modules eleve)
            then s\<lparr>data := Some (store_fetched (fullname_lower eleve @ ''_homework'')
                                  (get_homeworks env (token session) eleve (config_dir env)) m),
                   trace := trace s
                     @ fetch_effects (Call_get_homeworks eleve)
                         ''Error getting homeworks from ecole directe: %s''
                         (get_homeworks env (token session) eleve (config_dir env))\<rparr>
            else s)"
  using assms
  by (auto simp: homework_block_def try_homework_def except_warning_def setitem_def emit_def
        store_fetched_def fetch_effects_def Let_def split: sum.splits)

lemma lessons_block_run:
  assumes "data s = Some m"
  shows "lessons_block env session edt_date_start edt_date_end eleve s
         = (if ''EDT'' \<in> set (modules eleve)
            then s\<lparr>data := Some (store_fetched (fullname_lower eleve @ ''_lessons'')
                                  (get_lessons env (token session) eleve edt_date_start
                                     edt_date_end) m),
                   trace := trace s
                     @ fetch_effects (Call_get_lessons eleve edt_date_start edt_date_end)
                         ''Error getting Lessons  from ecole directe: %s''
                         (get_lessons env (token session) eleve edt_date_start edt_date_end)\<rparr>
            else s)"
  using assms
  by (auto simp: lessons_block_def try_lessons_def except_warning_def setitem_def emit_def
        store_fetched_def fetch_effects_def Let_def split: sum.splits)

lemma homework_block_run':
  assumes "data s = Some m"
  shows "homework_block env session eleve s
         = s\<lparr>data := Some (homework_snapshot env session eleve m),
              trace := trace s @ homework_effects env session eleve\<rparr>"
  using assms
  by (simp add: homework_block_run homework_snapshot_def homework_effects_def)

lemma lessons_block_run':
  assumes "data s = Some m"
  shows "lessons_block env session edt_date_start edt_date_end eleve s
         = s\<lparr>data := Some (lessons_snapshot env session edt_date_start edt_date_end eleve m),
              trace := trace s @ lessons_effects env session edt_date_start edt_date_end eleve\<rparr>"
  using assms
  by (simp add: lessons_block_run lessons_snapshot_def lessons_effects_def)

lemma grades_block_run:
  fixes env :: "('r, 'v) env"
  assumes "data s = Some m"
  shows "\<exists>es. (\<forall>a\<in>set es. \<not> is_call a)
     \<and> (\<forall>xs. get_grades env (token session) eleve year (config_dir env) = Inr xs \<longrightarrow>
           trace (snd (compare_data env previous_data (fullname_lower eleve @ ''_grades'')
                         [''date'', ''subject'', ''grade_out_of''] ''new_grade'' eleve
                         (format_grade env)
                         \<lparr>data = Some (m(fullname_lower eleve @ ''_grades'' \<mapsto> Items xs)),
                          trace = []\<rparr>))
           = Call_compare_data (fullname_lower eleve @ ''_grades'') # es)
     \<and> grades_block env previous_data session year eleve s
       = s\<lparr>data := Some (grades_snapshot env session year eleve m),
            trace := trace s @ grades_effects env session year eleve es\<rparr>"
proof (cases "get_grades env (token session) eleve year (config_dir env)")
  case (Inl ex)
  have "(\<forall>a\<in>set []. \<not> is_call (a :: 'v action))
     \<and> (\<forall>xs. get_grades env (token session) eleve year (config_dir env) = Inr xs \<longrightarrow>
           trace (snd (compare_data env previous_data (fullname_lower eleve @ ''_grades'')
                         [''date'', ''subject'', ''grade_out_of''] ''new_grade'' eleve
                         (format_grade env)
                         \<lparr>data = Some (m(fullname_lower eleve @ ''_grades'' \<mapsto> Items xs)),
                          trace = []\<rparr>))
           = Call_compare_data (fullname_lower eleve @ ''_grades'') # [])
     \<and> grades_block env previous_data session year eleve s
       = s\<lparr>data := Some (grades_snapshot env session year eleve m),
            trace := trace s @ grades_effects env session year eleve []\<rparr>"
    using assms Inl
    by (simp add: grades_block_def try_grades_def except_warning_def emit_def
          store_fetched_def fetch_effects_def Let_def grades_snapshot_def grades_effects_def)
  then show ?thesis by blast
next
  case (Inr xs)
  let ?key = "fullname_lower eleve @ ''_grades''"
  let ?d = "Some (m(?key \<mapsto> Items xs))"
  from compare_data_effects[of ?d env previous_data ?key
         "[''date'', ''subject'', ''grade_out_of'']" "''new_grade''" eleve "format_grade env"]
  obtain es where
    no: "\<forall>a\<in>set es. \<not> is_call a" and
    run: "\<And>t. data t = ?d \<Longrightarrow>
       compare_data env previous_data ?key [''date'', ''subject'', ''grade_out_of'']
         ''new_grade'' eleve (format_grade env) t
       = (Inr (), t\<lparr>trace := trace t @ Call_compare_data ?key # es\<rparr>)"
    by blast
  have alone: "\<forall>ys. get_grades env (token session) eleve year (config_dir env) = Inr ys \<longrightarrow>
           trace (snd (compare_data env previous_data ?key
                         [''date'', ''subject'', ''grade_out_of''] ''new_grade'' eleve
                         (format_grade env)
                         \<lparr>data = Some (m(?key \<mapsto> Items ys)), trace = []\<rparr>))
           = Call_compare_data ?key # es"
    using Inr by (simp add: run)
  have "grades_block env previous_data session year eleve s
       = s\<lparr>data := Some (grades_snapshot env session year eleve m),
            trace := trace s @ grades_effects env session year eleve es\<rparr>"
    using assms Inr
    by (simp add: grades_block_def try_grades_def except_warning_def emit_def setitem_def
          store_fetched_def fetch_effects_def Let_def run grades_snapshot_def
          grades_effects_def)
  with no alone show ?thesis by blast
qed

lemma eleve_snapshot_steps:
  "eleve_snapshot env session year edt_date_start edt_date_end eleve m
   = lessons_snapshot env session edt_date_start edt_date_end eleve
       (grades_snapshot env session year eleve (homework_snapshot env session eleve m))"
  by (simp add: eleve_snapshot_def lessons_snapshot_def grades_snapshot_def
        homework_snapshot_def Let_def)

lemma update_eleve_run:
  fixes env :: "('r, 'v) env"
  assumes "data s = Some m"
  shows "\<exists>es. (\<forall>a\<in>set es. \<not> is_call a)
     \<and> (\<forall>xs. get_grades env (token session) eleve year (config_dir env) = Inr xs \<longrightarrow>
           trace (snd (compare_data env previous_data (fullname_lower eleve @ ''_grades'')
                         [''date'', ''subject'', ''grade_out_of''] ''new_grade'' eleve
                         (format_grade env)
                         \<lparr>data = Some ((homework_snapshot env session eleve m)
                                         (fullname_lower eleve @ ''_grades'' \<mapsto> Items xs)),
                          trace = []\<rparr>))
           = Call_compare_data (fullname_lower eleve @ ''_grades'') # es)
     \<and> update_eleve env previous_data session year edt_date_start edt_date_end eleve s
       = s\<lparr>data := Some (eleve_snapshot env session year edt_date_start edt_date_end eleve m),
            trace := trace s @ homework_effects env session eleve
                     @ grades_effects env session year eleve es
                     @ lessons_effects env session edt_date_start edt_date_end eleve\<rparr>"
proof -
  let ?s1 = "homework_block env session eleve s"
  have s1: "?s1 = s\<lparr>data := Some (homework_snapshot env session eleve m),
                     trace := trace s @ homework_effects env session eleve\<rparr>"
    using assms by (rule homework_block_run')
  then have d1: "data ?s1 = Some (homework_snapshot env session eleve m)" by simp
  from grades_block_run[OF d1, of env session eleve year previous_data]
  obtain es where
    no: "\<forall>a\<in>set es. \<not> is_call a" and
    alone: "\<forall>xs. get_grades env (token session) eleve year (config_dir env) = Inr xs \<longrightarrow>
           trace (snd (compare_data env previous_data (fullname_lower eleve @ ''_grades'')
                         [''date'', ''subject'', ''grade_out_of''] ''new_grade'' eleve
                         (format_grade env)
                         \<lparr>data = Some ((homework_snapshot env session eleve m)
                                         (fullname_lower eleve @ ''_grades'' \<mapsto> Items xs)),
                          trace = []\<rparr>))
           = Call_compare_data (fullname_lower eleve @ ''_grades'') # es" and
    s2: "grades_block env previous_data session year eleve ?s1
         = ?s1\<lparr>data := Some (grades_snapshot env session year eleve
                               (homework_snapshot env session eleve m)),
                trace := trace ?s1 @ grades_effects env session year eleve es\<rparr>"
    by blast
  let ?s2 = "grades_block env previous_data session year eleve ?s1"
  have d2: "data ?s2 = Some (grades_snapshot env session year eleve
                               (homework_snapshot env session eleve m))"
    by (simp add: s2)
  have "update_eleve env previous_data session year edt_date_start edt_date_end eleve s
       = s\<lparr>data := Some (eleve_snapshot env session year edt_date_start edt_date_end eleve m),
            trace := trace s @ homework_effects env session eleve
                     @ grades_effects env session year eleve es
                     @ lessons_effects env session edt_date_start edt_date_end eleve\<rparr>"
    unfolding update_eleve_def lessons_block_run'[OF d2] eleve_snapshot_steps
    unfolding s2 unfolding s1
    by simp
  with no alone show ?thesis by blast
qed

subsection \<open>The snapshot of a tick\<close>








lemma grades_effects_subset:
  "set (grades_effects env session year eleve []) \<subseteq> set (grades_effects env session year eleve es)"
  by (auto simp: grades_effects_def split: sum.splits)

lemma update_eleves_run:
  fixes env :: "('r, 'v) env"
  assumes "data s = Some m"
  shows "\<exists>new.
     update_eleves env previous_data session year edt_date_start edt_date_end es s
     = s\<lparr>data := Some (fold (eleve_snapshot env session year edt_date_start edt_date_end) es m),
          trace := trace s @ new\<rparr>
     \<and> (\<forall>e\<in>set es.
           set (homework_effects env session e) \<subseteq> set new
         \<and> set (grades_effects env session year e []) \<subseteq> set new
         \<and> set (lessons_effects env session edt_date_start edt_date_end e) \<subseteq> set new)"
  using assms
proof (induction es arbitrary: s m)
  case Nil
  then have "s\<lparr>data := Some m, trace := trace s @ []\<rparr> = s"
    by (cases s) simp
  then show ?case
    by (intro exI[of _ "[]"]) simp
next
  case (Cons e es)
  let ?s1 = "update_eleve env previous_data session year edt_date_start edt_date_end e s"
  let ?m1 = "eleve_snapshot env session year edt_date_start edt_date_end e m"
  from update_eleve_run[OF Cons.prems, of env session e year previous_data edt_date_start
         edt_date_end]
  obtain cmp where
    s1: "?s1 = s\<lparr>data := Some ?m1,
                   trace := trace s @ homework_effects env session e
                     @ grades_effects env session year e cmp
                     @ lessons_effects env session edt_date_start edt_date_end e\<rparr>"
    by blast
  then have d1: "data ?s1 = Some ?m1" by simp
  from Cons.IH[OF d1] obtain new where
    rest: "update_eleves env previous_data session year edt_date_start edt_date_end es ?s1
           = ?s1\<lparr>data := Some (fold (eleve_snapshot env session year edt_date_start
                                        edt_date_end) es ?m1),
                  trace := trace ?s1 @ new\<rparr>"
    and eff: "\<forall>e\<in>set es.
           set (homework_effects env session e) \<subseteq> set new
         \<and> set (grades_effects env session year e []) \<subseteq> set new
         \<and> set (lessons_effects env session edt_date_start edt_date_end e) \<subseteq> set new"
    by blast
  let ?new = "homework_effects env session e @ grades_effects env session year e cmp
              @ lessons_effects env session edt_date_start edt_date_end e @ new"
  have "update_eleves env previous_data session year edt_date_start edt_date_end (e # es) s
        = s\<lparr>data := Some (fold (eleve_snapshot env session year edt_date_start edt_date_end)
                             (e # es) m),
             trace := trace s @ ?new\<rparr>"
    unfolding update_eleves.simps rest unfolding s1 by simp
  moreover have "\<forall>e\<in>set (e # es).
           set (homework_effects env session e) \<subseteq> set ?new
         \<and> set (grades_effects env session year e []) \<subseteq> set ?new
         \<and> set (lessons_effects env session edt_date_start edt_date_end e) \<subseteq> set ?new"
    using eff grades_effects_subset[of env session year e cmp] by auto
  ultimately show ?case by blast
qed

lemma async_update_data_run:
  fixes env :: "('r, 'v) env"
  assumes "get_ecoledirecte_session env (entry_data env) (config_dir env) = Inr (Some session)"
  shows "\<exists>new.
     async_update_data env s
     = (Inr (Some (fold (eleve_snapshot env session (year_data (now_year env))
                           ''2024-05-02'' ''2024-05-03'')
                     (eleves session) [''session'' \<mapsto> Session_entry session])),
        s\<lparr>data := Some (fold (eleve_snapshot env session (year_data (now_year env))
                                ''2024-05-02'' ''2024-05-03'')
                          (eleves session) [''session'' \<mapsto> Session_entry session]),
          trace := trace s @ new\<rparr>)
     \<and> (\<forall>e\<in>set (eleves session).
           set (homework_effects env session e) \<subseteq> set new
         \<and> set (grades_effects env session (year_data (now_year env)) e []) \<subseteq> set new
         \<and> set (lessons_effects env session ''2024-05-02'' ''2024-05-03'' e) \<subseteq> set new)"
proof -
  let ?s1 = "s\<lparr>data := Some [''session'' \<mapsto> Session_entry session]\<rparr>"
  have d1: "data ?s1 = Some [''session'' \<mapsto> Session_entry session]" by simp
  from update_eleves_run[OF d1, of env "data s" session "year_data (now_year env)"
         "''2024-05-02''" "''2024-05-03''" "eleves session"]
  obtain new where
    run: "update_eleves env (data s) session (year_data (now_year env)) ''2024-05-02''
            ''2024-05-03'' (eleves session) ?s1
          = ?s1\<lparr>data := Some (fold (eleve_snapshot env session (year_data (now_year env))
                                       ''2024-05-02'' ''2024-05-03'')
                                 (eleves session) [''session'' \<mapsto> Session_entry session]),
                 trace := trace ?s1 @ new\<rparr>"
    and eff: "\<forall>e\<in>set (eleves session).
           set (homework_effects env session e) \<subseteq> set new
         \<and> set (grades_effects env session (year_data (now_year env)) e []) \<subseteq> set new
         \<and> set (lessons_effects env session ''2024-05-02'' ''2024-05-03'' e) \<subseteq> set new"
    by blast
  have "async_update_data env s
     = (Inr (Some (fold (eleve_snapshot env session (year_data (now_year env))
                           ''2024-05-02'' ''2024-05-03'')
                     (eleves session) [''session'' \<mapsto> Session_entry session])),
        s\<lparr>data := Some (fold (eleve_snapshot env session (year_data (now_year env))
                                ''2024-05-02'' ''2024-05-03'')
                          (eleves session) [''session'' \<mapsto> Session_entry session]),
          trace := trace s @ new\<rparr>)"
    using assms by (simp add: async_update_data_def Let_def run)
  with eff show ?thesis by blast
qed

text \<open>
  C1, amended. When session acquisition returns \<^verbatim>\<open>None\<close>, the method logs an error
  and returns \<^verbatim>\<open>None\<close>: the log record is its only effect, so no fetch is made, no
  snapshot is built and no event is fired. The value returned equals the previous state
  only when there is none, as on the first tick; the counterexample has a previous state
  and the value returned is not that state.
\<close>

theorem async_update_data_no_session:
  assumes "get_ecoledirecte_session env (entry_data env) (config_dir env) = Inr None"
  shows "async_update_data env s
           = (Inr None, emit (Log_error ''Unable to init ecole directe client'') s)
       \<and> fired (trace (snd (async_update_data env s))) = fired (trace s)
       \<and> (fst (async_update_data env s) = Inr (data s)) = (data s = None)"
  using assms
  by (auto simp: async_update_data_def trace_emit fired_append)

theorem async_update_data_no_session_witness:
  "fst (async_update_data (example_env None)
          \<lparr>data = Some [''jane doe_grades'' \<mapsto> Items [grade_1]], trace = []\<rparr>)
     = Inr None
   \<and> trace (snd (async_update_data (example_env None)
                   \<lparr>data = Some [''jane doe_grades'' \<mapsto> Items [grade_1]], trace = []\<rparr>))
     = [Log_error ''Unable to init ecole directe client'']
   \<and> fired (trace (snd (async_update_data (example_env None)
                   \<lparr>data = Some [''jane doe_grades'' \<mapsto> Items [grade_1]], trace = []\<rparr>)))
     = []
   \<and> fst (async_update_data (example_env None) \<lparr>data = None, trace = []\<rparr>)
     = Inr (data \<lparr>data = None, trace = ([] :: string action list)\<rparr>)"
  using async_update_data_no_session
    [of "example_env None"
        "\<lparr>data = Some [''jane doe_grades'' \<mapsto> Items [grade_1]], trace = []\<rparr>"]
    async_update_data_no_session
    [of "example_env None" "\<lparr>data = None, trace = []\<rparr>"]
  by (simp add: example_env_def emit_def)

theorem async_update_data_no_session_counterexample:
  "get_ecoledirecte_session (example_env None) (entry_data (example_env None))
     (config_dir (example_env None)) = Inr None
   \<and> fst (async_update_data (example_env None)
            \<lparr>data = Some [''jane doe_grades'' \<mapsto> Items [grade_1]], trace = []\<rparr>)
     \<noteq> Inr (data \<lparr>data = Some [''jane doe_grades'' \<mapsto> Items [grade_1]],
                    trace = ([] :: string action list)\<rparr>)"
  by (simp add: async_update_data_def example_env_def)

text \<open>
  C6, amended. In one pass of the loop body the effects come in this order: the homework
  fetch (if enabled), the grades fetch (if enabled), then, only if the grades fetch
  returned, the invocation of \<^verbatim>\<open>compare_data\<close> with its events and log records, and
  after it the lessons fetch (if enabled). The differ runs on the snapshot that holds the
  homework and the grades just stored; the lessons are fetched and stored after it, as the
  counterexample shows on a student with the three modules.
\<close>

theorem update_eleve_differ_order:
  fixes env :: "('r, 'v) env"
  assumes "data s = Some m"
  shows "\<exists>compare_effects.
      (\<forall>a\<in>set compare_effects. \<not> is_call a)
    \<and> trace (update_eleve env previous_data session year edt_date_start edt_date_end eleve s)
      = trace s @ homework_effects env session eleve
        @ grades_effects env session year eleve compare_effects
        @ lessons_effects env session edt_date_start edt_date_end eleve
    \<and> (\<forall>xs. get_grades env (token session) eleve year (config_dir env) = Inr xs \<longrightarrow>
          trace (snd (compare_data env previous_data (fullname_lower eleve @ ''_grades'')
                        [''date'', ''subject'', ''grade_out_of''] ''new_grade'' eleve
                        (format_grade env)
                        \<lparr>data = Some ((homework_snapshot env session eleve m)
                                        (fullname_lower eleve @ ''_grades'' \<mapsto> Items xs)),
                         trace = []\<rparr>))
          = Call_compare_data (fullname_lower eleve @ ''_grades'') # compare_effects)"
proof -
  from update_eleve_run[OF assms, of env session eleve year previous_data edt_date_start
         edt_date_end]
  obtain es where
    "\<forall>a\<in>set es. \<not> is_call a"
    "\<forall>xs. get_grades env (token session) eleve year (config_dir env) = Inr xs \<longrightarrow>
           trace (snd (compare_data env previous_data (fullname_lower eleve @ ''_grades'')
                         [''date'', ''subject'', ''grade_out_of''] ''new_grade'' eleve
                         (format_grade env)
                         \<lparr>data = Some ((homework_snapshot env session eleve m)
                                         (fullname_lower eleve @ ''_grades'' \<mapsto> Items xs)),
                          trace = []\<rparr>))
           = Call_compare_data (fullname_lower eleve @ ''_grades'') # es"
    "update_eleve env previous_data session year edt_date_start edt_date_end eleve s
       = s\<lparr>data := Some (eleve_snapshot env session year edt_date_start edt_date_end eleve m),
            trace := trace s @ homework_effects env session eleve
                     @ grades_effects env session year eleve es
                     @ lessons_effects env session edt_date_start edt_date_end eleve\<rparr>"
    by blast
  then show ?thesis
    by (intro exI[of _ es]) simp
qed

theorem update_eleve_differ_order_counterexample:
  "trace (snd (async_update_data (example_env (Some (example_session [lea])))
                 \<lparr>data = None, trace = []\<rparr>))
   = [Call_get_homeworks lea,
      Call_get_grades lea ''2023-2024'',
      Call_compare_data ''lea roy_grades'',
      Call_get_lessons lea ''2024-05-02'' ''2024-05-03'']"
  by (simp add: async_update_data_def example_env_def example_session_def lea_def
        update_eleve_def homework_block_def grades_block_def lessons_block_def
        try_homework_def try_grades_def try_lessons_def except_warning_def setitem_def
        emit_def compare_data_def compare_data_body_def year_data_def str_def digit_char_def
        Let_def)

subsection \<open>Which keys a tick leaves in the snapshot\<close>








lemma eleve_snapshot_format_grade:
  "eleve_snapshot (env\<lparr>format_grade := g\<rparr>) session year edt_date_start edt_date_end
   = eleve_snapshot env session year edt_date_start edt_date_end"
  by (intro ext) (simp add: eleve_snapshot_def)

text \<open>
  C4. \<^verbatim>\<open>compare_data\<close> always returns normally and leaves \<^verbatim>\<open>self.data\<close>
  unchanged; when its body raises, the last thing it does is log a warning with the key
  and the exception. Whatever the formatting function does, a tick whose session
  acquisition succeeds returns the same snapshot.
\<close>

theorem compare_data_never_raises:
  fixes env :: "('r, 'v) env"
  shows "fst (compare_data env previous_data data_key keys event_type eleve format_func s)
     = Inr ()
   \<and> data (snd (compare_data env previous_data data_key keys event_type eleve format_func s))
     = data s
   \<and> (\<forall>ex s'. compare_data_body env previous_data data_key keys event_type eleve format_func
                 (emit (Call_compare_data data_key) s) = (Inl ex, s')
        \<longrightarrow> trace (snd (compare_data env previous_data data_key keys event_type eleve
                           format_func s))
            = trace s' @ [Log_warning
                ''Error comparing data: self[%s] previous_data[%s] data_key[%s] ex[%s]''
                [Self_arg, Previous_data_arg, Str_arg data_key, Ex_arg ex]])
   \<and> (\<forall>session. get_ecoledirecte_session env (entry_data env) (config_dir env)
                   = Inr (Some session)
        \<longrightarrow> (\<exists>snapshot. fst (async_update_data env t) = Inr (Some snapshot)
                        \<and> fst (async_update_data (env\<lparr>format_grade := g\<rparr>) t)
                          = Inr (Some snapshot)))"
proof (intro conjI allI impI)
  show "fst (compare_data env previous_data data_key keys event_type eleve format_func s)
        = Inr ()"
    by (rule compare_data_returns)
  show "data (snd (compare_data env previous_data data_key keys event_type eleve format_func s))
        = data s"
    by (rule compare_data_keeps_data)
next
  fix ex s'
  assume "compare_data_body env previous_data data_key keys event_type eleve format_func
            (emit (Call_compare_data data_key) s) = (Inl ex, s')"
  then show "trace (snd (compare_data env previous_data data_key keys event_type eleve
                           format_func s))
             = trace s' @ [Log_warning
                ''Error comparing data: self[%s] previous_data[%s] data_key[%s] ex[%s]''
                [Self_arg, Previous_data_arg, Str_arg data_key, Ex_arg ex]]"
    by (simp add: compare_data_def trace_emit)
next
  fix session
  assume session: "get_ecoledirecte_session env (entry_data env) (config_dir env)
                   = Inr (Some session)"
  let ?env' = "env\<lparr>format_grade := g\<rparr>"
  have session': "get_ecoledirecte_session ?env' (entry_data ?env') (config_dir ?env')
                  = Inr (Some session)"
    using session by simp
  from async_update_data_run[OF session, of t] async_update_data_run[OF session', of t]
  show "\<exists>snapshot. fst (async_update_data env t) = Inr (Some snapshot)
                   \<and> fst (async_update_data ?env' t) = Inr (Some snapshot)"
    by (auto simp: eleve_snapshot_format_grade)
qed

theorem compare_data_never_raises_witness:
  "fst (compare_data (example_env None) (Some [''jane doe_grades'' \<mapsto> Items [grade_1]])
          ''jane doe_grades'' [''date'', ''subject'', ''grade_out_of''] ''new_grade'' jane
          (\<lambda>r. Inl (Raised ''malformed''))
          \<lparr>data = Some [''jane doe_grades'' \<mapsto> Items [grade_2]], trace = []\<rparr>)
     = Inr ()
   \<and> trace (snd (compare_data (example_env None)
          (Some [''jane doe_grades'' \<mapsto> Items [grade_1]])
          ''jane doe_grades'' [''date'', ''subject'', ''grade_out_of''] ''new_grade'' jane
          (\<lambda>r. Inl (Raised ''malformed''))
          \<lparr>data = Some [''jane doe_grades'' \<mapsto> Items [grade_2]], trace = []\<rparr>))
     = [Call_compare_data ''jane doe_grades'',
        Log_warning ''Error comparing data: self[%s] previous_data[%s] data_key[%s] ex[%s]''
          [Self_arg, Previous_data_arg, Str_arg ''jane doe_grades'',
           Ex_arg (Raised ''malformed'')]]
   \<and> fst (async_update_data
            ((example_env (Some (example_session [lea])))
               \<lparr>format_grade := (\<lambda>r. Inl (Raised ''malformed''))\<rparr>)
            \<lparr>data = Some [''lea roy_grades'' \<mapsto> Items [grade_1]], trace = []\<rparr>)
     = fst (async_update_data (example_env (Some (example_session [lea])))
              \<lparr>data = Some [''lea roy_grades'' \<mapsto> Items [grade_1]], trace = []\<rparr>)"
proof -
  let ?bad = "\<lambda>r::string pydict. Inl (Raised ''malformed'') :: error + string pydict"
  let ?env = "example_env (Some (example_session [lea]))"
  let ?t = "\<lparr>data = Some [''lea roy_grades'' \<mapsto> Items [grade_1]], trace = []\<rparr>
            :: (string pydict, string) coordinator"
  have session: "get_ecoledirecte_session ?env (entry_data ?env) (config_dir ?env)
                 = Inr (Some (example_session [lea]))"
    by (simp add: example_env_def)
  have same: "fst (async_update_data (?env\<lparr>format_grade := ?bad\<rparr>) ?t)
              = fst (async_update_data ?env ?t)"
    using compare_data_never_raises
      [where env = ?env and t = ?t and g = ?bad and s = ?t and format_func = ?bad]
      session
    by (metis (no_types, lifting))
  show ?thesis
    using compare_data_never_raises
      [where env = "example_env None"
         and previous_data = "Some [''jane doe_grades'' \<mapsto> Items [grade_1]]"
         and data_key = "''jane doe_grades''"
         and keys = "[''date'', ''subject'', ''grade_out_of'']"
         and event_type = "''new_grade''" and eleve = jane and format_func = ?bad
         and s = "\<lparr>data = Some [''jane doe_grades'' \<mapsto> Items [grade_2]], trace = []\<rparr>"
         and t = ?t and g = ?bad]
      same
    by (simp add: compare_data_body_def iter_def emit_def)
qed

theorem compare_data_twice_witness:
  "fired (trace (snd (compare_data (example_env None)
       (Some [''jane doe_grades'' \<mapsto> Items [grade_1]])
       ''jane doe_grades'' [''date'', ''subject'', ''grade_out_of''] ''new_grade'' jane Inr
       \<lparr>data = Some [''jane doe_grades'' \<mapsto> Items [grade_1, grade_2]], trace = []\<rparr>)))
   = [Payload ''Jane Doe'' ''new_grade'' grade_2]
   \<and> fired (trace (snd (compare_data (example_env None)
       (Some [''jane doe_grades'' \<mapsto> Items [grade_1]])
       ''jane doe_grades'' [''date'', ''subject'', ''grade_out_of''] ''new_grade'' jane Inr
       (snd (compare_data (example_env None)
          (Some [''jane doe_grades'' \<mapsto> Items [grade_1]])
          ''jane doe_grades'' [''date'', ''subject'', ''grade_out_of''] ''new_grade'' jane Inr
          \<lparr>data = Some [''jane doe_grades'' \<mapsto> Items [grade_1, grade_2]],
           trace = []\<rparr>)))))
   = [Payload ''Jane Doe'' ''new_grade'' grade_2, Payload ''Jane Doe'' ''new_grade'' grade_2]"
proof -
  let ?keys = "[''date'', ''subject'', ''grade_out_of'']"
  let ?prev = "Some [''jane doe_grades'' \<mapsto> Items [grade_1]] :: string pydict snapshot option"
  let ?s = "\<lparr>data = Some [''jane doe_grades'' \<mapsto> Items [grade_1, grade_2]], trace = []\<rparr>
            :: (string pydict, string) coordinator"
  let ?run = "compare_data (example_env None) ?prev ''jane doe_grades'' ?keys ''new_grade''
                jane Inr"
  have wf: "\<forall>c\<in>set [grade_1, grade_2]. well_formed Inr ?keys c"
           "\<forall>p\<in>set [grade_1]. well_formed Inr ?keys p"
    by (simp_all add: well_formed_def grade_1_def grade_2_def)
  have first: "fired (trace (snd (?run ?s))) = [Payload ''Jane Doe'' ''new_grade'' grade_2]"
    using compare_data_new_items
      [OF refl _ _ _ wf, of "[''jane doe_grades'' \<mapsto> Items [grade_1]]" "''jane doe_grades''"
         ?s "[''jane doe_grades'' \<mapsto> Items [grade_1, grade_2]]" "example_env None"
         "''new_grade''" jane]
    by (simp add: is_new_def same_item_def formatted_def notification_def jane_def
          grade_1_def grade_2_def)
  from compare_data_twice
    [of "example_env None" ?prev "''jane doe_grades''" ?keys "''new_grade''" jane Inr ?s]
  obtain notifications where
    "fired (trace (snd (?run ?s))) = fired (trace ?s) @ notifications"
    "fired (trace (snd (?run (snd (?run ?s))))) = fired (trace (snd (?run ?s))) @ notifications"
    by blast
  with first show ?thesis by simp
qed

theorem update_eleve_differ_order_witness:
  "trace (update_eleve (example_env (Some (example_session [lea])))
            (Some [''lea roy_grades'' \<mapsto> Items [grade_1]]) (example_session [lea])
            ''2023-2024'' ''2024-05-02'' ''2024-05-03'' lea
            \<lparr>data = Some [''session'' \<mapsto> Session_entry (example_session [lea])],
             trace = []\<rparr>)
   = [Call_get_homeworks lea,
      Call_get_grades lea ''2023-2024'',
      Call_compare_data ''lea roy_grades'',
      Fire ''ecole_directe_event'' (Payload ''Lea Roy'' ''new_grade'' grade_2),
      Call_get_lessons lea ''2024-05-02'' ''2024-05-03'']"
proof -
  let ?session = "example_session [lea]"
  let ?env = "example_env (Some ?session)"
  let ?prev = "Some [''lea roy_grades'' \<mapsto> Items [grade_1]] :: string pydict snapshot option"
  let ?m = "[''session'' \<mapsto> Session_entry ?session] :: string pydict snapshot"
  let ?s = "\<lparr>data = Some ?m, trace = []\<rparr> :: (string pydict, string) coordinator"
  have d: "data ?s = Some ?m" by simp
  from update_eleve_differ_order
    [OF d, of ?env ?prev ?session "''2023-2024''" "''2024-05-02''" "''2024-05-03''" lea]
  obtain compare_effects where
    order: "trace (update_eleve ?env ?prev ?session ''2023-2024'' ''2024-05-02''
                     ''2024-05-03'' lea ?s)
            = trace ?s @ homework_effects ?env ?session lea
              @ grades_effects ?env ?session ''2023-2024'' lea compare_effects
              @ lessons_effects ?env ?session ''2024-05-02'' ''2024-05-03'' lea"
    and alone: "\<forall>xs. get_grades ?env (token ?session) lea ''2023-2024'' (config_dir ?env)
                       = Inr xs \<longrightarrow>
          trace (snd (compare_data ?env ?prev (fullname_lower lea @ ''_grades'')
                        [''date'', ''subject'', ''grade_out_of''] ''new_grade'' lea
                        (format_grade ?env)
                        \<lparr>data = Some ((homework_snapshot ?env ?session lea ?m)
                                        (fullname_lower lea @ ''_grades'' \<mapsto> Items xs)),
                         trace = []\<rparr>))
          = Call_compare_data (fullname_lower lea @ ''_grades'') # compare_effects"
    by blast
  have fetched: "get_grades ?env (token ?session) lea ''2023-2024'' (config_dir ?env)
                 = Inr [grade_1, grade_2]"
    by (simp add: example_env_def)
  from alone fetched have
    "trace (snd (compare_data ?env ?prev (fullname_lower lea @ ''_grades'')
                        [''date'', ''subject'', ''grade_out_of''] ''new_grade'' lea
                        (format_grade ?env)
                        \<lparr>data = Some ((homework_snapshot ?env ?session lea ?m)
                                        (fullname_lower lea @ ''_grades''
                                           \<mapsto> Items [grade_1, grade_2])),
                         trace = []\<rparr>))
          = Call_compare_data (fullname_lower lea @ ''_grades'') # compare_effects"
    by blast
  then have cmp: "compare_effects
                  = [Fire ''ecole_directe_event'' (Payload ''Lea Roy'' ''new_grade'' grade_2)]"
    by (simp add: compare_data_def compare_data_body_def iter_def subscript_def dict_eq_def
          trigger_event_def emit_def example_env_def lea_def grade_1_def grade_2_def)
  show ?thesis
    unfolding order cmp
    by (simp add: homework_effects_def grades_effects_def lessons_effects_def
          fetch_effects_def example_env_def example_session_def lea_def)
qed

end
